theory Spec2Isabelle
  imports Complex_Main "HOL-Library.AList" "HOL-Library.Sublist"
begin

section \<open>The VK car-monitoring bot (vk\_bot.py)\<close>

text \<open>
  A shallow embedding of \<^verbatim>\<open>VKAutoMonitorBot\<close>: the per-user records, the filter check,
  the dialog handlers with the dispatcher \<^verbatim>\<open>handle_message\<close>, and the polling pass
  \<^verbatim>\<open>monitor_prices\<close>.

  Conventions of the embedding.
  \<^item> A Python \<^verbatim>\<open>str\<close> is the list of its Unicode code points. The labels of the source
    contain Cyrillic letters and emoji, so they are written as code-point lists.
  \<^item> Python dictionaries that the source iterates over (\<^verbatim>\<open>user_data\<close>,
    \<^verbatim>\<open>monitored_cars\<close>) are association lists in insertion order; \<open>AList.update\<close>
    replaces the value of a present key in place and appends a new key at the end, as an
    assignment to a Python dict does. \<^verbatim>\<open>user_states\<close> is only read and written by key,
    and is a map.
  \<^item> \<^verbatim>\<open>user_data\<close> is keyed by \<^verbatim>\<open>str(user_id)\<close> in the source; \<^verbatim>\<open>str\<close> is injective
    on integers, so the embedding keys it by the integer itself.
  \<^item> Every call of \<^verbatim>\<open>send_message\<close> is recorded in an outbox. The text of a message is
    kept as a constructor per template of the source, carrying the values the template
    interpolates; rendering them (thousands separators, rounding to one decimal) is not
    modelled, and neither is a failure of the transport. A text sent in several parts is
    recorded part by part.
  \<^item> \<^verbatim>\<open>save_user_data\<close> writes the dictionary to a file and changes nothing in memory;
    it is left out.
  \<^item> The clock, the parser \<^verbatim>\<open>CarParser.fetch_car_data\<close>, the built-ins
    \<^verbatim>\<open>str.lower\<close> and \<^verbatim>\<open>int\<close>, and the length of the rendered list of listings are
    parameters (an environment record).
  \<^item> An exception that leaves a handler is a value: handlers that can raise return the
    error together with the state reached when it was raised.
  \<^item> The quotient \<^verbatim>\<open>(new_price - old_price) / old_price * 100\<close> is computed by the source
    in binary floating point. The embedding rounds as Python does: the true division of
    two integers is the exact quotient rounded to binary64 (to nearest, ties to even) and
    raises \<^verbatim>\<open>OverflowError\<close> beyond the range; the product with 100 is rounded again and
    becomes an infinity beyond the range.
\<close>

subsection \<open>Strings\<close>

type_synonym ustr = "nat list"

text \<open>\<^verbatim>\<open>sub in s\<close> for strings: \<open>sub\<close> occurs in \<open>s\<close> as a contiguous block.\<close>

fun str_contains :: "ustr \<Rightarrow> ustr \<Rightarrow> bool" where
  "str_contains sub [] = (sub = [])"
| "str_contains sub (c # cs) = (prefix sub (c # cs) \<or> str_contains sub cs)"

text \<open>\<^verbatim>\<open>str.isspace\<close> of one character (the white-space code points of CPython).\<close>

definition isspace :: "nat \<Rightarrow> bool" where
  "isspace c \<longleftrightarrow>
     (9 \<le> c \<and> c \<le> 13) \<or> (28 \<le> c \<and> c \<le> 32) \<or> c = 133 \<or> c = 160 \<or> c = 5760 \<or>
     (8192 \<le> c \<and> c \<le> 8202) \<or> c = 8232 \<or> c = 8233 \<or> c = 8239 \<or> c = 8287 \<or> c = 12288"

text \<open>\<^verbatim>\<open>s.strip()\<close>: leading and trailing white space removed.\<close>

definition str_strip :: "ustr \<Rightarrow> ustr" where
  "str_strip s = rev (dropWhile isspace (rev (dropWhile isspace s)))"

text \<open>\<^verbatim>\<open>s.replace(c, '')\<close> for a one-character string \<open>c\<close>.\<close>

definition str_remove :: "nat \<Rightarrow> ustr \<Rightarrow> ustr" where
  "str_remove c s = filter (\<lambda>d. d \<noteq> c) s"

text \<open>Truthiness of an optional string and of an optional integer, as \<^verbatim>\<open>if x:\<close> tests it.\<close>

fun truthy_str :: "ustr option \<Rightarrow> bool" where
  "truthy_str None = False"
| "truthy_str (Some s) = (s \<noteq> [])"

fun truthy_int :: "int option \<Rightarrow> bool" where
  "truthy_int None = False"
| "truthy_int (Some n) = (n \<noteq> 0)"

subsection \<open>Labels and other string constants of the source\<close>

text \<open>The Back button, U+00AB, space, and the Cyrillic word "Nazad".\<close>

definition BACK_LABEL :: ustr where
  "BACK_LABEL = [171, 32, 1053, 1072, 1079, 1072, 1076]"

text \<open>The words of line 694: "nachat'", "start", "menyu".\<close>

definition START_WORDS :: "ustr list" where
  "START_WORDS = [[1085, 1072, 1095, 1072, 1090, 1100], [115, 116, 97, 114, 116],
     [1084, 1077, 1085, 1102]]"

text \<open>The six buttons of the main menu, in the order of the dispatcher.\<close>

definition LBL_CHOOSE_CITY :: ustr where
  "LBL_CHOOSE_CITY = [127961, 32, 1042, 1099, 1073, 1088, 1072, 1090, 1100, 32, 1075, 1086,
     1088, 1086, 1076]"

definition LBL_ADD_URL :: ustr where
  "LBL_ADD_URL = [10133, 32, 1044, 1086, 1073, 1072, 1074, 1080, 1090, 1100, 32, 1086, 1073,
     1098, 1103, 1074, 1083, 1077, 1085, 1080, 1077]"

definition LBL_LIST_CARS :: ustr where
  "LBL_LIST_CARS = [128203, 32, 1052, 1086, 1080, 32, 1086, 1073, 1098, 1103, 1074, 1083,
     1077, 1085, 1080, 1103]"

definition LBL_FILTERS :: ustr where
  "LBL_FILTERS = [128269, 32, 1060, 1080, 1083, 1100, 1090, 1088, 1099]"

definition LBL_SETTINGS :: ustr where
  "LBL_SETTINGS = [9881, 65039, 32, 1053, 1072, 1089, 1090, 1088, 1086, 1081, 1082, 1080]"

definition LBL_HELP :: ustr where
  "LBL_HELP = [10067, 32, 1055, 1086, 1084, 1086, 1097, 1100]"

text \<open>The five buttons of the filter menu.\<close>

definition LBL_PRICE :: ustr where
  "LBL_PRICE = [128176, 32, 1062, 1077, 1085, 1072]"

definition LBL_YEAR :: ustr where
  "LBL_YEAR = [128197, 32, 1043, 1086, 1076, 32, 1074, 1099, 1087, 1091, 1089, 1082, 1072]"

definition LBL_CONDITION :: ustr where
  "LBL_CONDITION = [128663, 32, 1057, 1086, 1089, 1090, 1086, 1103, 1085, 1080, 1077]"

definition LBL_DOCUMENTS :: ustr where
  "LBL_DOCUMENTS = [128196, 32, 1044, 1086, 1082, 1091, 1084, 1077, 1085, 1090, 1099]"

definition LBL_CLEAR_FILTERS :: ustr where
  "LBL_CLEAR_FILTERS = [128465, 32, 1057, 1073, 1088, 1086, 1089, 1080, 1090, 1100, 32, 1092,
     1080, 1083, 1100, 1090, 1088, 1099]"

text \<open>The option buttons of the condition and documents keyboards, and "another city".\<close>

definition LBL_COND_NEW :: ustr where
  "LBL_COND_NEW = [127381, 32, 1053, 1086, 1074, 1099, 1081]"

definition LBL_COND_USED :: ustr where
  "LBL_COND_USED = [128295, 32, 1057, 32, 1087, 1088, 1086, 1073, 1077, 1075, 1086, 1084]"

definition LBL_COND_ANY :: ustr where
  "LBL_COND_ANY = [128260, 32, 1051, 1102, 1073, 1086, 1077]"

definition LBL_DOCS_WITH :: ustr where
  "LBL_DOCS_WITH = [9989, 32, 1057, 32, 1076, 1086, 1082, 1091, 1084, 1077, 1085, 1090, 1072,
     1084, 1080]"

definition LBL_DOCS_WITHOUT :: ustr where
  "LBL_DOCS_WITHOUT = [10060, 32, 1041, 1077, 1079, 32, 1076, 1086, 1082, 1091, 1084, 1077,
     1085, 1090, 1086, 1074]"

definition LBL_DOCS_ANY :: ustr where
  "LBL_DOCS_ANY = [128260, 32, 1051, 1102, 1073, 1099, 1077]"

definition LBL_OTHER_CITY :: ustr where
  "LBL_OTHER_CITY = [9999, 65039, 32, 1044, 1088, 1091, 1075, 1086, 1081, 32, 1075, 1086,
     1088, 1086, 1076]"

text \<open>The site markers \<^verbatim>\<open>'auto.ru'\<close> and \<^verbatim>\<open>'drom.ru'\<close>.\<close>

definition AUTO_RU :: ustr where
  "AUTO_RU = [97, 117, 116, 111, 46, 114, 117]"

definition DROM_RU :: ustr where
  "DROM_RU = [100, 114, 111, 109, 46, 114, 117]"

subsection \<open>Exceptions and floating point\<close>

datatype py_error = KeyError | ValueError | ZeroDivisionError | OverflowError | ParserError

text \<open>
  A Python \<^verbatim>\<open>float\<close> is a binary64 number: \<open>Finite m s\<close> stands for \<open>m * 2 ^ s\<close>, and there
  are the two infinities. (No computation of the source produces a NaN, and the sign of a
  zero is never looked at.)
\<close>

datatype pyfloat = Finite int int | Pos_inf | Neg_inf

text \<open>The number of binary digits of a natural number.\<close>

fun bit_length :: "nat \<Rightarrow> nat" where
  "bit_length n = (if n = 0 then 0 else bit_length (n div 2) + 1)"

declare bit_length.simps [simp del]

text \<open>The quotient \<open>p / q\<close> rounded to the nearest integer, a tie to the even one.\<close>

definition round_half_even :: "nat \<Rightarrow> nat \<Rightarrow> nat" where
  "round_half_even p q =
     (let d = p div q; r = p mod q
      in if 2 * r < q then d else if q < 2 * r then d + 1 else if even d then d else d + 1)"

text \<open>
  The quotient \<open>p / q\<close> (for \<open>q > 0\<close>) rounded to binary64: \<open>Some (m, s)\<close> for the result
  \<open>m * 2 ^ s\<close>, \<open>None\<close> when the rounded value is beyond the largest float. Here \<open>e\<close> is the
  binary exponent of the quotient (\<open>2 ^ e \<le> p / q < 2 ^ (e + 1)\<close>) and \<open>s\<close> the exponent of
  the last of the 53 digits kept, which is -1074 for the subnormal numbers.
\<close>

definition round_magnitude :: "nat \<Rightarrow> nat \<Rightarrow> (nat \<times> int) option" where
  "round_magnitude p q =
     (if p = 0 then Some (0, 0)
      else
        (let d = int (bit_length p) - int (bit_length q);
             e = (if 0 \<le> d then (if q * 2 ^ nat d \<le> p then d else d - 1)
                  else (if q \<le> p * 2 ^ nat (- d) then d else d - 1));
             s = max e (- 1022) - 52;
             m = (if 0 \<le> s then round_half_even p (q * 2 ^ nat s)
                  else round_half_even (p * 2 ^ nat (- s)) q)
         in if 1023 < e \<or> (e = 1023 \<and> m = 2 ^ 53) then None else Some (m, s)))"

text \<open>\<^verbatim>\<open>a / b\<close> for two Python integers.\<close>

definition int_true_divide :: "int \<Rightarrow> int \<Rightarrow> py_error + pyfloat" where
  "int_true_divide a b =
     (if b = 0 then Inl ZeroDivisionError
      else
        (case round_magnitude (nat \<bar>a\<bar>) (nat \<bar>b\<bar>) of
           None \<Rightarrow> Inl OverflowError
         | Some (m, s) \<Rightarrow> Inr (Finite (sgn a * sgn b * int m) s)))"

text \<open>\<^verbatim>\<open>x * 100\<close> for a float \<open>x\<close> (100 is a float exactly; the product never raises).\<close>

definition float_times_100 :: "pyfloat \<Rightarrow> pyfloat" where
  "float_times_100 x =
     (case x of
        Finite m s \<Rightarrow>
          (case (if 0 \<le> s then round_magnitude (nat \<bar>m\<bar> * 100 * 2 ^ nat s) 1
                 else round_magnitude (nat \<bar>m\<bar> * 100) (2 ^ nat (- s))) of
             None \<Rightarrow> if 0 < m then Pos_inf else Neg_inf
           | Some (m', s') \<Rightarrow> Finite (sgn m * int m') s')
      | Pos_inf \<Rightarrow> Pos_inf
      | Neg_inf \<Rightarrow> Neg_inf)"

fun float_abs :: "pyfloat \<Rightarrow> pyfloat" where
  "float_abs (Finite m s) = Finite \<bar>m\<bar> s"
| "float_abs Pos_inf = Pos_inf"
| "float_abs Neg_inf = Pos_inf"

text \<open>The value of a finite float, and \<^verbatim>\<open>x >= t\<close> for a float \<open>x\<close> and a number \<open>t\<close>.\<close>

definition float_value :: "int \<Rightarrow> int \<Rightarrow> rat" where
  "float_value m s =
     (if 0 \<le> s then of_int (m * 2 ^ nat s) else of_int m / of_int (2 ^ nat (- s)))"

fun float_ge :: "pyfloat \<Rightarrow> rat \<Rightarrow> bool" where
  "float_ge (Finite m s) t = (t \<le> float_value m s)"
| "float_ge Pos_inf t = True"
| "float_ge Neg_inf t = False"

text \<open>
  \<^verbatim>\<open>(new_price - old_price) / old_price * 100\<close> (line 796) and its absolute value, the
  local variable \<^verbatim>\<open>price_change_percent\<close> (line 776).
\<close>

definition percent_change :: "int \<Rightarrow> int \<Rightarrow> py_error + pyfloat" where
  "percent_change old new =
     (case int_true_divide (new - old) old of
        Inl err \<Rightarrow> Inl err
      | Inr x \<Rightarrow> Inr (float_times_100 x))"

definition price_change_percent :: "int \<Rightarrow> int \<Rightarrow> py_error + pyfloat" where
  "price_change_percent old new =
     (case percent_change old new of
        Inl err \<Rightarrow> Inl err
      | Inr x \<Rightarrow> Inr (float_abs x))"

subsection \<open>Data model\<close>

type_synonym timestamp = nat

datatype dialog_state =
  STATE_MAIN_MENU | STATE_CHOOSING_CITY | STATE_ADDING_URL | STATE_SETTING_FILTERS
| STATE_PRICE_MIN | STATE_PRICE_MAX | STATE_YEAR_MIN | STATE_YEAR_MAX
| STATE_CONDITION | STATE_DOCUMENTS

text \<open>The values \<^verbatim>\<open>'new'\<close>, \<^verbatim>\<open>'used'\<close>, \<^verbatim>\<open>'any'\<close> and
  \<^verbatim>\<open>'with_docs'\<close>, \<^verbatim>\<open>'without_docs'\<close>, \<^verbatim>\<open>'any'\<close> of the two choice filters.\<close>

datatype condition_value = Cond_new | Cond_used | Cond_any

datatype documents_value = Docs_with_docs | Docs_without_docs | Docs_any

record filters =
  price_min :: "int option"
  price_max :: "int option"
  year_min :: "int option"
  year_max :: "int option"
  condition :: "condition_value option"
  documents :: "documents_value option"

text \<open>
  The dictionary returned by the parser (\<^verbatim>\<open>car_data\<close>, \<^verbatim>\<open>new_data\<close>). The parser is not
  part of the file; the keys are those the source reads: \<^verbatim>\<open>title\<close>, \<^verbatim>\<open>price\<close> and
  \<^verbatim>\<open>site\<close> by subscript, \<^verbatim>\<open>year\<close>, \<^verbatim>\<open>mileage\<close> and \<^verbatim>\<open>location\<close> through
  \<^verbatim>\<open>.get\<close>.
\<close>

record car_data =
  snap_title :: ustr
  snap_price :: int
  snap_site :: ustr
  snap_year :: "int option"
  snap_mileage :: "int option"
  snap_location :: "ustr option"

record history_entry =
  entry_price :: int
  entry_date :: timestamp

record car =
  title :: ustr
  price :: int
  initial_price :: int
  site :: ustr
  year :: "int option"
  mileage :: "int option"
  location :: "ustr option"
  added_date :: timestamp
  last_check :: timestamp
  price_history :: "history_entry list"

record user_record =
  city :: "ustr option"
  monitored_cars :: "(ustr \<times> car) list"
  filters :: filters
  price_threshold :: rat

subsection \<open>check\_filters\<close>

definition check_filters :: "car_data \<Rightarrow> filters \<Rightarrow> bool" where
  "check_filters cd f =
     (if truthy_int (price_min f) \<and> snap_price cd < the (price_min f) then False
      else if truthy_int (price_max f) \<and> snap_price cd > the (price_max f) then False
      else if truthy_int (snap_year cd) \<and>
              truthy_int (year_min f) \<and> the (snap_year cd) < the (year_min f) then False
      else if truthy_int (snap_year cd) \<and>
              truthy_int (year_max f) \<and> the (snap_year cd) > the (year_max f) then False
      else True)"

subsection \<open>Messages, the bot's state and its environment\<close>

datatype keyboard =
  No_keyboard | Main_menu_keyboard | City_keyboard | Filters_keyboard
| Condition_keyboard | Documents_keyboard | Back_keyboard

datatype alert_type = Good_news | Attention

datatype change_emoji = Chart_decreasing | Chart_increasing

text \<open>The values interpolated into the price notification of \<^verbatim>\<open>monitor_prices\<close>.\<close>

record price_alert =
  alert :: alert_type
  emoji :: change_emoji
  alert_title :: ustr
  old_price :: int
  new_price :: int
  change :: int
  change_percent :: pyfloat
  savings :: "int option"
  alert_url :: ustr

text \<open>One constructor per message template of the source.\<close>

datatype message =
  Msg_welcome "(ustr \<times> nat) option"
| Msg_choose_city
| Msg_enter_city
| Msg_city_set ustr
| Msg_city_first
| Msg_send_url
| Msg_bad_url
| Msg_duplicate
| Msg_loading
| Msg_fetch_failed
| Msg_filter_mismatch ustr int "int option"
| Msg_added car_data
| Msg_no_cars
| Msg_car_list "(ustr \<times> car) list"
| Msg_car_list_part "(ustr \<times> car) list" nat
| Msg_filters_menu filters
| Msg_ask_price_min
| Msg_ask_price_max
| Msg_bad_price_min
| Msg_bad_price_max
| Msg_price_set filters
| Msg_ask_year_min
| Msg_ask_year_max
| Msg_bad_year int
| Msg_year_set filters
| Msg_ask_condition
| Msg_condition_set filters
| Msg_ask_documents
| Msg_documents_set filters
| Msg_filters_cleared
| Msg_settings "ustr option" rat nat filters
| Msg_help
| Msg_price_alert price_alert

type_synonym sent = "int \<times> message \<times> keyboard"

record bot =
  user_data :: "(int \<times> user_record) list"
  user_states :: "int \<rightharpoonup> dialog_state"
  outbox :: "sent list"

record event =
  event_user_id :: int
  event_text :: ustr

text \<open>
  What \<^verbatim>\<open>await self.parser.fetch_car_data(url)\<close> can do: raise, return a false value
  (\<^verbatim>\<open>None\<close>), or return the dictionary of a listing.
\<close>

datatype fetch_result = Fetch_raises | Fetch_nothing | Fetch_data car_data

text \<open>
  The environment of one handler call (or of the processing of one listing in a polling
  pass): the built-ins \<^verbatim>\<open>str.lower\<close> and \<^verbatim>\<open>int\<close> (\<open>None\<close> for \<^verbatim>\<open>ValueError\<close>), the
  parser, the value of the \<open>k\<close>-th call of \<^verbatim>\<open>datetime.now()\<close>,
  \<^verbatim>\<open>datetime.now().year\<close>, and the number of characters of the text that
  \<^verbatim>\<open>handle_list_cars\<close> builds for a list of listings.
\<close>

record env =
  str_lower :: "ustr \<Rightarrow> ustr"
  str_to_int :: "ustr \<Rightarrow> int option"
  fetch_car_data :: "ustr \<Rightarrow> fetch_result"
  now :: "nat \<Rightarrow> timestamp"
  current_year :: int
  car_list_length :: "(ustr \<times> car) list \<Rightarrow> nat"

subsection \<open>Access to the user records\<close>

definition no_filters :: filters where
  "no_filters = \<lparr>price_min = None, price_max = None, year_min = None, year_max = None,
     condition = None, documents = None\<rparr>"

definition default_user :: user_record where
  "default_user = \<lparr>city = None, monitored_cars = [], filters = no_filters,
     price_threshold = 5\<rparr>"

text \<open>
  \<^verbatim>\<open>get_user_data\<close> creates the record on first access. The source returns a reference
  to the record, which the caller mutates; here the caller writes the changed record
  back with \<open>put_user\<close>.
\<close>

definition get_user_data :: "bot \<Rightarrow> int \<Rightarrow> bot \<times> user_record" where
  "get_user_data b user_id =
     (case map_of (user_data b) user_id of
        None \<Rightarrow> (b\<lparr>user_data := AList.update user_id default_user (user_data b)\<rparr>,
                 default_user)
      | Some ud \<Rightarrow> (b, ud))"

definition put_user :: "bot \<Rightarrow> int \<Rightarrow> user_record \<Rightarrow> bot" where
  "put_user b user_id ud = b\<lparr>user_data := AList.update user_id ud (user_data b)\<rparr>"

definition set_state :: "bot \<Rightarrow> int \<Rightarrow> dialog_state \<Rightarrow> bot" where
  "set_state b user_id s = b\<lparr>user_states := (user_states b)(user_id \<mapsto> s)\<rparr>"

definition send_message :: "bot \<Rightarrow> int \<Rightarrow> message \<Rightarrow> keyboard \<Rightarrow> bot" where
  "send_message b user_id msg kb = b\<lparr>outbox := outbox b @ [(user_id, msg, kb)]\<rparr>"

subsection \<open>The dialog handlers\<close>

definition handle_start :: "bot \<Rightarrow> int \<Rightarrow> bot" where
  "handle_start b user_id =
     (case get_user_data b user_id of (b1, ud) \<Rightarrow>
        send_message (set_state b1 user_id STATE_MAIN_MENU) user_id
          (Msg_welcome (case city ud of
                          None \<Rightarrow> None
                        | Some c \<Rightarrow> if c \<noteq> [] then Some (c, length (monitored_cars ud))
                                    else None))
          Main_menu_keyboard)"

definition handle_choose_city :: "bot \<Rightarrow> int \<Rightarrow> bot" where
  "handle_choose_city b user_id =
     send_message (set_state b user_id STATE_CHOOSING_CITY) user_id Msg_choose_city
       City_keyboard"

definition handle_city_selected :: "bot \<Rightarrow> int \<Rightarrow> ustr \<Rightarrow> bot" where
  "handle_city_selected b user_id c =
     (if c = LBL_OTHER_CITY then send_message b user_id Msg_enter_city Back_keyboard
      else
        (case get_user_data b user_id of (b1, ud) \<Rightarrow>
           send_message
             (set_state (put_user b1 user_id (ud\<lparr>city := Some c\<rparr>)) user_id STATE_MAIN_MENU)
             user_id (Msg_city_set c) Main_menu_keyboard))"

definition handle_add_url :: "bot \<Rightarrow> int \<Rightarrow> bot" where
  "handle_add_url b user_id =
     (case get_user_data b user_id of (b1, ud) \<Rightarrow>
        if \<not> truthy_str (city ud)
        then send_message b1 user_id Msg_city_first Main_menu_keyboard
        else send_message (set_state b1 user_id STATE_ADDING_URL) user_id Msg_send_url
               Back_keyboard)"

text \<open>The dictionary stored for a new listing (lines 386 to 400).\<close>

definition new_car :: "env \<Rightarrow> car_data \<Rightarrow> car" where
  "new_car e cd =
     \<lparr>title = snap_title cd, price = snap_price cd, initial_price = snap_price cd,
      site = snap_site cd, year = snap_year cd, mileage = snap_mileage cd,
      location = snap_location cd, added_date = now e 0, last_check = now e 1,
      price_history = [\<lparr>entry_price = snap_price cd, entry_date = now e 2\<rparr>]\<rparr>"

text \<open>
  \<^verbatim>\<open>handle_url_received\<close>. Line 350 subscripts \<^verbatim>\<open>self.user_data\<close> without creating the
  record, so a user without a record gets \<^verbatim>\<open>KeyError\<close>; an exception of the parser
  leaves the handler after the loading message was sent.
\<close>

definition handle_url_received :: "env \<Rightarrow> bot \<Rightarrow> int \<Rightarrow> ustr \<Rightarrow> py_error option \<times> bot" where
  "handle_url_received e b user_id url =
     (if \<not> (str_contains AUTO_RU url \<or> str_contains DROM_RU url)
      then (None, send_message b user_id Msg_bad_url No_keyboard)
      else
        (case map_of (user_data b) user_id of
           None \<Rightarrow> (Some KeyError, b)
         | Some ud0 \<Rightarrow>
             if map_of (monitored_cars ud0) url \<noteq> None
             then (None, send_message (set_state b user_id STATE_MAIN_MENU) user_id
                           Msg_duplicate Main_menu_keyboard)
             else
               (let b1 = send_message b user_id Msg_loading No_keyboard in
                case fetch_car_data e url of
                  Fetch_raises \<Rightarrow> (Some ParserError, b1)
                | Fetch_nothing \<Rightarrow> (None, send_message b1 user_id Msg_fetch_failed No_keyboard)
                | Fetch_data cd \<Rightarrow>
                    (case get_user_data b1 user_id of (b2, ud) \<Rightarrow>
                       if \<not> check_filters cd (filters ud)
                       then (None, send_message b2 user_id
                               (Msg_filter_mismatch (snap_title cd) (snap_price cd)
                                  (if truthy_int (snap_year cd) then snap_year cd else None))
                               No_keyboard)
                       else
                         (let b3 = put_user b2 user_id
                                     (ud\<lparr>monitored_cars :=
                                           AList.update url (new_car e cd) (monitored_cars ud)\<rparr>)
                          in (None, send_message (set_state b3 user_id STATE_MAIN_MENU) user_id
                                      (Msg_added cd) Main_menu_keyboard))))))"

text \<open>
  \<^verbatim>\<open>handle_list_cars\<close>. For a listing whose price has changed, line 442 divides the change
  by \<^verbatim>\<open>initial_price\<close>; the first listing for which this raises ends the handler before
  anything is sent. A text of more than 4096 characters is cut into parts of 4000
  characters; all but the last are sent without keyboard (lines 453 to 457).
\<close>

definition list_entry_error :: "car \<Rightarrow> py_error option" where
  "list_entry_error c =
     (if price c - initial_price c \<noteq> 0
      then (case int_true_divide (price c - initial_price c) (initial_price c) of
              Inl err \<Rightarrow> Some err
            | Inr x \<Rightarrow> None)
      else None)"

fun first_list_error :: "(ustr \<times> car) list \<Rightarrow> py_error option" where
  "first_list_error [] = None"
| "first_list_error ((url, c) # rest) =
     (case list_entry_error c of Some err \<Rightarrow> Some err | None \<Rightarrow> first_list_error rest)"

definition send_car_list :: "env \<Rightarrow> bot \<Rightarrow> int \<Rightarrow> (ustr \<times> car) list \<Rightarrow> bot" where
  "send_car_list e b user_id cars =
     (if 4096 < car_list_length e cars
      then
        (let parts = (car_list_length e cars + 3999) div 4000;
             b1 = foldl (\<lambda>b i. send_message b user_id (Msg_car_list_part cars i) No_keyboard)
                    b [0..<parts - 1]
         in send_message b1 user_id (Msg_car_list_part cars (parts - 1)) Main_menu_keyboard)
      else send_message b user_id (Msg_car_list cars) Main_menu_keyboard)"

definition handle_list_cars :: "env \<Rightarrow> bot \<Rightarrow> int \<Rightarrow> py_error option \<times> bot" where
  "handle_list_cars e b user_id =
     (case get_user_data b user_id of (b1, ud) \<Rightarrow>
        if monitored_cars ud = []
        then (None, send_message b1 user_id Msg_no_cars Main_menu_keyboard)
        else
          (case first_list_error (monitored_cars ud) of
             Some err \<Rightarrow> (Some err, b1)
           | None \<Rightarrow> (None, send_car_list e b1 user_id (monitored_cars ud))))"

definition handle_filters_menu :: "bot \<Rightarrow> int \<Rightarrow> bot" where
  "handle_filters_menu b user_id =
     (case get_user_data b user_id of (b1, ud) \<Rightarrow>
        send_message (set_state b1 user_id STATE_SETTING_FILTERS) user_id
          (Msg_filters_menu (filters ud)) Filters_keyboard)"

definition handle_price_filter :: "bot \<Rightarrow> int \<Rightarrow> bot" where
  "handle_price_filter b user_id =
     send_message (set_state b user_id STATE_PRICE_MIN) user_id Msg_ask_price_min
       Back_keyboard"

definition handle_price_min :: "env \<Rightarrow> bot \<Rightarrow> int \<Rightarrow> ustr \<Rightarrow> bot" where
  "handle_price_min e b user_id v =
     (case str_to_int e (str_remove 44 (str_remove 32 v)) of
        None \<Rightarrow> send_message b user_id Msg_bad_price_min No_keyboard
      | Some p \<Rightarrow>
          if p < 0 then send_message b user_id Msg_bad_price_min No_keyboard
          else
            (case get_user_data b user_id of (b1, ud) \<Rightarrow>
               send_message
                 (set_state
                    (put_user b1 user_id
                       (ud\<lparr>filters := (filters ud)\<lparr>price_min := if p > 0 then Some p else None\<rparr>\<rparr>))
                    user_id STATE_PRICE_MAX)
                 user_id Msg_ask_price_max Back_keyboard))"

definition handle_price_max :: "env \<Rightarrow> bot \<Rightarrow> int \<Rightarrow> ustr \<Rightarrow> bot" where
  "handle_price_max e b user_id v =
     (case str_to_int e (str_remove 44 (str_remove 32 v)) of
        None \<Rightarrow> send_message b user_id Msg_bad_price_max No_keyboard
      | Some p \<Rightarrow>
          if p < 0 then send_message b user_id Msg_bad_price_max No_keyboard
          else
            (case get_user_data b user_id of (b1, ud) \<Rightarrow>
               (let fs = (filters ud)\<lparr>price_max := if p > 0 then Some p else None\<rparr> in
                send_message
                  (set_state (put_user b1 user_id (ud\<lparr>filters := fs\<rparr>)) user_id
                     STATE_SETTING_FILTERS)
                  user_id (Msg_price_set fs) Filters_keyboard)))"

definition handle_year_filter :: "bot \<Rightarrow> int \<Rightarrow> bot" where
  "handle_year_filter b user_id =
     send_message (set_state b user_id STATE_YEAR_MIN) user_id Msg_ask_year_min Back_keyboard"

definition handle_year_min :: "env \<Rightarrow> bot \<Rightarrow> int \<Rightarrow> ustr \<Rightarrow> bot" where
  "handle_year_min e b user_id v =
     (case str_to_int e v of
        None \<Rightarrow> send_message b user_id (Msg_bad_year (current_year e)) No_keyboard
      | Some y \<Rightarrow>
          if y \<noteq> 0 \<and> (y < 1900 \<or> y > current_year e)
          then send_message b user_id (Msg_bad_year (current_year e)) No_keyboard
          else
            (case get_user_data b user_id of (b1, ud) \<Rightarrow>
               send_message
                 (set_state
                    (put_user b1 user_id
                       (ud\<lparr>filters := (filters ud)\<lparr>year_min := if y > 0 then Some y else None\<rparr>\<rparr>))
                    user_id STATE_YEAR_MAX)
                 user_id Msg_ask_year_max Back_keyboard))"

definition handle_year_max :: "env \<Rightarrow> bot \<Rightarrow> int \<Rightarrow> ustr \<Rightarrow> bot" where
  "handle_year_max e b user_id v =
     (case str_to_int e v of
        None \<Rightarrow> send_message b user_id (Msg_bad_year (current_year e)) No_keyboard
      | Some y \<Rightarrow>
          if y \<noteq> 0 \<and> (y < 1900 \<or> y > current_year e)
          then send_message b user_id (Msg_bad_year (current_year e)) No_keyboard
          else
            (case get_user_data b user_id of (b1, ud) \<Rightarrow>
               (let fs = (filters ud)\<lparr>year_max := if y > 0 then Some y else None\<rparr> in
                send_message
                  (set_state (put_user b1 user_id (ud\<lparr>filters := fs\<rparr>)) user_id
                     STATE_SETTING_FILTERS)
                  user_id (Msg_year_set fs) Filters_keyboard)))"

definition handle_condition_filter :: "bot \<Rightarrow> int \<Rightarrow> bot" where
  "handle_condition_filter b user_id =
     send_message (set_state b user_id STATE_CONDITION) user_id Msg_ask_condition
       Condition_keyboard"

definition condition_map :: "ustr \<Rightarrow> condition_value option" where
  "condition_map t =
     (if t = LBL_COND_NEW then Some Cond_new
      else if t = LBL_COND_USED then Some Cond_used
      else if t = LBL_COND_ANY then Some Cond_any
      else None)"

definition handle_condition_selected :: "bot \<Rightarrow> int \<Rightarrow> ustr \<Rightarrow> bot" where
  "handle_condition_selected b user_id condition_text =
     (case condition_map condition_text of
        None \<Rightarrow> b
      | Some cv \<Rightarrow>
          (case get_user_data b user_id of (b1, ud) \<Rightarrow>
             (let fs = (filters ud)\<lparr>condition := Some cv\<rparr> in
              send_message
                (set_state (put_user b1 user_id (ud\<lparr>filters := fs\<rparr>)) user_id
                   STATE_SETTING_FILTERS)
                user_id (Msg_condition_set fs) Filters_keyboard)))"

definition handle_documents_filter :: "bot \<Rightarrow> int \<Rightarrow> bot" where
  "handle_documents_filter b user_id =
     send_message (set_state b user_id STATE_DOCUMENTS) user_id Msg_ask_documents
       Documents_keyboard"

definition docs_map :: "ustr \<Rightarrow> documents_value option" where
  "docs_map t =
     (if t = LBL_DOCS_WITH then Some Docs_with_docs
      else if t = LBL_DOCS_WITHOUT then Some Docs_without_docs
      else if t = LBL_DOCS_ANY then Some Docs_any
      else None)"

definition handle_documents_selected :: "bot \<Rightarrow> int \<Rightarrow> ustr \<Rightarrow> bot" where
  "handle_documents_selected b user_id docs_text =
     (case docs_map docs_text of
        None \<Rightarrow> b
      | Some dv \<Rightarrow>
          (case get_user_data b user_id of (b1, ud) \<Rightarrow>
             (let fs = (filters ud)\<lparr>documents := Some dv\<rparr> in
              send_message
                (set_state (put_user b1 user_id (ud\<lparr>filters := fs\<rparr>)) user_id
                   STATE_SETTING_FILTERS)
                user_id (Msg_documents_set fs) Filters_keyboard)))"

definition handle_clear_filters :: "bot \<Rightarrow> int \<Rightarrow> bot" where
  "handle_clear_filters b user_id =
     (case get_user_data b user_id of (b1, ud) \<Rightarrow>
        send_message
          (set_state (put_user b1 user_id (ud\<lparr>filters := no_filters\<rparr>)) user_id
             STATE_SETTING_FILTERS)
          user_id Msg_filters_cleared Filters_keyboard)"

definition handle_settings :: "bot \<Rightarrow> int \<Rightarrow> bot" where
  "handle_settings b user_id =
     (case get_user_data b user_id of (b1, ud) \<Rightarrow>
        send_message b1 user_id
          (Msg_settings (city ud) (price_threshold ud) (length (monitored_cars ud))
             (filters ud))
          Main_menu_keyboard)"

definition handle_help :: "bot \<Rightarrow> int \<Rightarrow> bot" where
  "handle_help b user_id = send_message b user_id Msg_help Main_menu_keyboard"

subsection \<open>The dispatcher handle\_message\<close>

text \<open>
  The result is the exception that reaches the event loop of \<^verbatim>\<open>run\<close> (which logs it and
  goes on), if any, and the state of the bot afterwards.
\<close>

definition handle_message :: "env \<Rightarrow> bot \<Rightarrow> event \<Rightarrow> py_error option \<times> bot" where
  "handle_message e b ev =
     (let user_id = event_user_id ev;
          msg = str_strip (event_text ev);
          state = (case user_states b user_id of None \<Rightarrow> STATE_MAIN_MENU | Some s \<Rightarrow> s)
      in
        if msg = BACK_LABEL then (None, handle_start b user_id)
        else if state = STATE_MAIN_MENU \<or> str_lower e msg \<in> set START_WORDS then
          (if msg = LBL_CHOOSE_CITY then (None, handle_choose_city b user_id)
           else if msg = LBL_ADD_URL then (None, handle_add_url b user_id)
           else if msg = LBL_LIST_CARS then handle_list_cars e b user_id
           else if msg = LBL_FILTERS then (None, handle_filters_menu b user_id)
           else if msg = LBL_SETTINGS then (None, handle_settings b user_id)
           else if msg = LBL_HELP then (None, handle_help b user_id)
           else (None, handle_start b user_id))
        else
          (case state of
             STATE_MAIN_MENU \<Rightarrow> (None, b)
           | STATE_CHOOSING_CITY \<Rightarrow> (None, handle_city_selected b user_id msg)
           | STATE_ADDING_URL \<Rightarrow> handle_url_received e b user_id msg
           | STATE_SETTING_FILTERS \<Rightarrow>
               (if msg = LBL_PRICE then (None, handle_price_filter b user_id)
                else if msg = LBL_YEAR then (None, handle_year_filter b user_id)
                else if msg = LBL_CONDITION then (None, handle_condition_filter b user_id)
                else if msg = LBL_DOCUMENTS then (None, handle_documents_filter b user_id)
                else if msg = LBL_CLEAR_FILTERS then (None, handle_clear_filters b user_id)
                else (None, b))
           | STATE_PRICE_MIN \<Rightarrow> (None, handle_price_min e b user_id msg)
           | STATE_PRICE_MAX \<Rightarrow> (None, handle_price_max e b user_id msg)
           | STATE_YEAR_MIN \<Rightarrow> (None, handle_year_min e b user_id msg)
           | STATE_YEAR_MAX \<Rightarrow> (None, handle_year_max e b user_id msg)
           | STATE_CONDITION \<Rightarrow> (None, handle_condition_selected b user_id msg)
           | STATE_DOCUMENTS \<Rightarrow> (None, handle_documents_selected b user_id msg)))"

subsection \<open>The polling pass monitor\_prices\<close>

text \<open>
  The body of the \<^verbatim>\<open>try\<close> of lines 764 to 811 for one listing: the exception raised, if
  any, the listing as it is when the body is left, and the notifications sent. Line 776
  raises \<^verbatim>\<open>ZeroDivisionError\<close> for an \<^verbatim>\<open>old_price\<close> of 0 and \<^verbatim>\<open>OverflowError\<close> for a
  quotient beyond the floats; line 796 computes the quotient once more.
\<close>

definition monitor_listing_body ::
  "env \<Rightarrow> rat \<Rightarrow> int \<Rightarrow> ustr \<Rightarrow> car \<Rightarrow> py_error option \<times> car \<times> sent list" where
  "monitor_listing_body e threshold user_id url c =
     (case fetch_car_data e url of
        Fetch_raises \<Rightarrow> (Some ParserError, c, [])
      | Fetch_nothing \<Rightarrow> (None, c, [])
      | Fetch_data new_data \<Rightarrow>
          (let old = price c;
               new = snap_price new_data;
               c1 = c\<lparr>last_check := now e 0\<rparr>
           in
             if old \<noteq> new then
               (case price_change_percent old new of
                  Inl err \<Rightarrow> (Some err, c1, [])
                | Inr percent \<Rightarrow>
                    if float_ge percent threshold then
                      (let c2 = c1\<lparr>price := new,
                                   price_history := price_history c1 @
                                     [\<lparr>entry_price = new, entry_date = now e 1\<rparr>]\<rparr>
                       in
                         (case percent_change old new of
                            Inl err \<Rightarrow> (Some err, c2, [])
                          | Inr signed_percent \<Rightarrow>
                              (None, c2,
                               [(user_id,
                                 Msg_price_alert
                                   \<lparr>alert = (if new < old then Good_news else Attention),
                                    emoji = (if new < old then Chart_decreasing
                                             else Chart_increasing),
                                    alert_title = title c2,
                                    old_price = old,
                                    new_price = new,
                                    change = new - old,
                                    change_percent = signed_percent,
                                    savings = (if new < old then Some (old - new) else None),
                                    alert_url = url\<rparr>,
                                 No_keyboard)])))
                    else (None, c1, []))
             else (None, c1, [])))"

text \<open>
  One turn of the inner loop: \<^verbatim>\<open>except Exception\<close> logs what the body raised and the
  loop goes on with the next listing.
\<close>

definition monitor_listing :: "env \<Rightarrow> rat \<Rightarrow> int \<Rightarrow> ustr \<Rightarrow> car \<Rightarrow> car \<times> sent list" where
  "monitor_listing e threshold user_id url c =
     (case monitor_listing_body e threshold user_id url c of (err, c', out) \<Rightarrow> (c', out))"

text \<open>
  The two loops. The environment of a pass gives each listing of each user its own
  fetch result and clock readings.
\<close>

fun monitor_cars ::
  "(int \<Rightarrow> ustr \<Rightarrow> env) \<Rightarrow> rat \<Rightarrow> int \<Rightarrow> (ustr \<times> car) list \<Rightarrow> (ustr \<times> car) list \<times> sent list" where
  "monitor_cars es threshold user_id [] = ([], [])"
| "monitor_cars es threshold user_id ((url, c) # rest) =
     (case monitor_listing (es user_id url) threshold user_id url c of (c', out) \<Rightarrow>
        (case monitor_cars es threshold user_id rest of (rest', outs) \<Rightarrow>
           ((url, c') # rest', out @ outs)))"

fun monitor_users ::
  "(int \<Rightarrow> ustr \<Rightarrow> env) \<Rightarrow> (int \<times> user_record) list \<Rightarrow> (int \<times> user_record) list \<times> sent list" where
  "monitor_users es [] = ([], [])"
| "monitor_users es ((user_id, data) # rest) =
     (case (if monitored_cars data = [] then (data, [])
            else (case monitor_cars es (price_threshold data) user_id (monitored_cars data) of
                    (cars', out) \<Rightarrow> (data\<lparr>monitored_cars := cars'\<rparr>, out)))
      of (data', out) \<Rightarrow>
        (case monitor_users es rest of (rest', outs) \<Rightarrow>
           ((user_id, data') # rest', out @ outs)))"

definition monitor_prices :: "(int \<Rightarrow> ustr \<Rightarrow> env) \<Rightarrow> bot \<Rightarrow> bot" where
  "monitor_prices es b =
     (case monitor_users es (user_data b) of (uds, out) \<Rightarrow>
        b\<lparr>user_data := uds, outbox := outbox b @ out\<rparr>)"

subsection \<open>The states the bot can be in\<close>

text \<open>
  A fresh bot has no user records. The records survive a restart (they are reloaded from
  the file \<^verbatim>\<open>save_user_data\<close> wrote), the dialog states do not.
\<close>

definition empty_bot :: bot where
  "empty_bot = \<lparr>user_data = [], user_states = Map.empty, outbox = []\<rparr>"

definition restart :: "bot \<Rightarrow> bot" where
  "restart b = b\<lparr>user_states := Map.empty\<rparr>"

inductive reachable :: "bot \<Rightarrow> bool" where
  reachable_empty: "reachable empty_bot"
| reachable_message: "reachable b \<Longrightarrow> reachable (snd (handle_message e b ev))"
| reachable_monitor: "reachable b \<Longrightarrow> reachable (monitor_prices es b)"
| reachable_restart: "reachable b \<Longrightarrow> reachable (restart b)"

text \<open>The listing a user tracks under a URL, and all listings of a user.\<close>

definition cars_of :: "bot \<Rightarrow> int \<Rightarrow> (ustr \<times> car) list" where
  "cars_of b user_id =
     (case map_of (user_data b) user_id of None \<Rightarrow> [] | Some ud \<Rightarrow> monitored_cars ud)"

definition lookup_car :: "bot \<Rightarrow> int \<Rightarrow> ustr \<Rightarrow> car option" where
  "lookup_car b user_id url = map_of (cars_of b user_id) url"

definition filters_of :: "bot \<Rightarrow> int \<Rightarrow> filters" where
  "filters_of b user_id =
     (case map_of (user_data b) user_id of None \<Rightarrow> no_filters | Some ud \<Rightarrow> filters ud)"

definition state_of :: "bot \<Rightarrow> int \<Rightarrow> dialog_state" where
  "state_of b user_id =
     (case user_states b user_id of None \<Rightarrow> STATE_MAIN_MENU | Some s \<Rightarrow> s)"

definition threshold_of :: "bot \<Rightarrow> int \<Rightarrow> rat" where
  "threshold_of b user_id =
     (case map_of (user_data b) user_id of None \<Rightarrow> 5 | Some ud \<Rightarrow> price_threshold ud)"

text \<open>The test of line 342 on a URL.\<close>

definition has_site_marker :: "ustr \<Rightarrow> bool" where
  "has_site_marker url \<longleftrightarrow> str_contains AUTO_RU url \<or> str_contains DROM_RU url"

text \<open>
  The invariant of a listing: its history is not empty and the price of the last entry
  is the current price.
\<close>

definition car_ok :: "car \<Rightarrow> bool" where
  "car_ok c \<longleftrightarrow> price_history c \<noteq> [] \<and> entry_price (last (price_history c)) = price c"

text \<open>
  A Python dictionary holds a key once: no user has two records, and no user tracks a
  URL twice.
\<close>

definition keys_distinct :: "bot \<Rightarrow> bool" where
  "keys_distinct b \<longleftrightarrow>
     distinct (map fst (user_data b)) \<and> (\<forall>u. distinct (map fst (cars_of b u)))"

text \<open>A message of the outbox is a price notification for the URL \<open>url\<close> of user \<open>u\<close>.\<close>

definition is_alert_for :: "int \<Rightarrow> ustr \<Rightarrow> sent \<Rightarrow> bool" where
  "is_alert_for u url x =
     (case x of
        (user_id, Msg_price_alert a, kb) \<Rightarrow> user_id = u \<and> alert_url a = url
      | (user_id, other, kb) \<Rightarrow> False)"

subsection \<open>Sample values\<close>

text \<open>
  A concrete environment for evaluating the handlers: lower-casing of the ASCII and the
  Cyrillic capital letters, \<^verbatim>\<open>int\<close> on decimal ASCII digits with an optional minus sign,
  a parser that knows one listing, and a clock.
\<close>

definition lower_char :: "nat \<Rightarrow> nat" where
  "lower_char c =
     (if 65 \<le> c \<and> c \<le> 90 then c + 32
      else if 1040 \<le> c \<and> c \<le> 1071 then c + 32
      else if 1024 \<le> c \<and> c \<le> 1039 then c + 80
      else c)"

definition sample_lower :: "ustr \<Rightarrow> ustr" where
  "sample_lower s = map lower_char s"

fun digits_value :: "int \<Rightarrow> ustr \<Rightarrow> int option" where
  "digits_value acc [] = Some acc"
| "digits_value acc (c # cs) =
     (if 48 \<le> c \<and> c \<le> 57 then digits_value (acc * 10 + int (c - 48)) cs else None)"

definition sample_to_int :: "ustr \<Rightarrow> int option" where
  "sample_to_int s =
     (case s of
        [] \<Rightarrow> None
      | c # cs \<Rightarrow>
          if c = 45 then (if cs = [] then None else map_option uminus (digits_value 0 cs))
          else digits_value 0 (c # cs))"

text \<open>A listing titled "Kia", offered at 1000000, built in 2015.\<close>

definition sample_car_data :: car_data where
  "sample_car_data = \<lparr>snap_title = [75, 105, 97], snap_price = 1000000, snap_site = AUTO_RU,
     snap_year = Some 2015, snap_mileage = None, snap_location = None\<rparr>"

text \<open>The URL \<^verbatim>\<open>auto.ru/1\<close> and the city "Moskva".\<close>

definition sample_url :: ustr where
  "sample_url = [97, 117, 116, 111, 46, 114, 117, 47, 49]"

definition sample_city :: ustr where
  "sample_city = [1052, 1086, 1089, 1082, 1074, 1072]"

definition sample_env :: env where
  "sample_env = \<lparr>str_lower = sample_lower, str_to_int = sample_to_int,
     fetch_car_data =
       (\<lambda>url. if url = sample_url then Fetch_data sample_car_data else Fetch_nothing),
     now = (\<lambda>k. 1000 + k), current_year = 2025,
     car_list_length = (\<lambda>cars. 100 * length cars)\<rparr>"

text \<open>User 1 sends a text; a dialog is a list of events handled in turn.\<close>

definition say :: "ustr \<Rightarrow> event" where
  "say t = \<lparr>event_user_id = 1, event_text = t\<rparr>"

definition dialog :: "env \<Rightarrow> bot \<Rightarrow> event list \<Rightarrow> bot" where
  "dialog e b evs = foldl (\<lambda>b ev. snd (handle_message e b ev)) b evs"

text \<open>
  The listing stored for the sample snapshot; an environment whose parser reports the
  price \<open>p\<close> for every URL; one whose parser raises; a second URL, \<^verbatim>\<open>drom.ru/2\<close>.
\<close>

definition sample_car :: car where
  "sample_car = new_car sample_env sample_car_data"

definition sample_env_price :: "int \<Rightarrow> env" where
  "sample_env_price p =
     sample_env\<lparr>fetch_car_data := (\<lambda>url. Fetch_data (sample_car_data\<lparr>snap_price := p\<rparr>))\<rparr>"

definition failing_env :: env where
  "failing_env = sample_env\<lparr>fetch_car_data := (\<lambda>url. Fetch_raises)\<rparr>"

definition sample_url2 :: ustr where
  "sample_url2 = [100, 114, 111, 109, 46, 114, 117, 47, 50]"

text \<open>
  A pass over one user with two listings: the fetch of the first raises, the second is
  offered at 900000.
\<close>

definition sample_pass_bot :: bot where
  "sample_pass_bot =
     \<lparr>user_data = [(1, \<lparr>city = Some sample_city,
                          monitored_cars = [(sample_url2, sample_car), (sample_url, sample_car)],
                          filters = no_filters, price_threshold = 5\<rparr>)],
      user_states = Map.empty, outbox = []\<rparr>"

definition sample_pass_envs :: "int \<Rightarrow> ustr \<Rightarrow> env" where
  "sample_pass_envs user_id url =
     (if url = sample_url then sample_env_price 900000 else failing_env)"

text \<open>
  User 1 chooses a city, asks to add a listing and sends the sample URL; then asks to add
  a listing once more.
\<close>

definition sample_ready_bot :: bot where
  "sample_ready_bot =
     dialog sample_env empty_bot [say LBL_CHOOSE_CITY, say sample_city, say LBL_ADD_URL]"

definition sample_tracking_bot :: bot where
  "sample_tracking_bot =
     dialog sample_env empty_bot
       [say LBL_CHOOSE_CITY, say sample_city, say LBL_ADD_URL, say sample_url]"

definition sample_adding_bot :: bot where
  "sample_adding_bot = dialog sample_env sample_tracking_bot [say LBL_ADD_URL]"

text \<open>
  User 1 chooses a city, sets the price filter to "no minimum, at most 500000", goes
  back to the main menu and asks to add a listing.
\<close>

definition sample_filtering_bot :: bot where
  "sample_filtering_bot =
     dialog sample_env empty_bot
       [say LBL_CHOOSE_CITY, say sample_city, say LBL_FILTERS, say LBL_PRICE, say [48],
        say [53, 48, 48, 48, 48, 48], say BACK_LABEL, say LBL_ADD_URL]"

text \<open>
  The listing stored for the sample snapshot at the price \<open>p\<close>, and a bot whose only user
  tracks it under the sample URL with the notification threshold \<open>t\<close>.
\<close>

definition sample_car_at :: "int \<Rightarrow> car" where
  "sample_car_at p = new_car sample_env (sample_car_data\<lparr>snap_price := p\<rparr>)"

definition sample_bot_at :: "int \<Rightarrow> rat \<Rightarrow> bot" where
  "sample_bot_at p t =
     \<lparr>user_data = [(1, \<lparr>city = Some sample_city,
                          monitored_cars = [(sample_url, sample_car_at p)],
                          filters = no_filters, price_threshold = t\<rparr>)],
      user_states = Map.empty, outbox = []\<rparr>"

section \<open>Properties\<close>

subsection \<open>Collections of defining equations\<close>

lemmas label_defs = BACK_LABEL_def START_WORDS_def LBL_CHOOSE_CITY_def LBL_ADD_URL_def
  LBL_LIST_CARS_def LBL_FILTERS_def LBL_SETTINGS_def LBL_HELP_def LBL_PRICE_def LBL_YEAR_def
  LBL_CONDITION_def LBL_DOCUMENTS_def LBL_CLEAR_FILTERS_def LBL_COND_NEW_def
  LBL_COND_USED_def LBL_COND_ANY_def LBL_DOCS_WITH_def LBL_DOCS_WITHOUT_def LBL_DOCS_ANY_def
  LBL_OTHER_CITY_def AUTO_RU_def DROM_RU_def

lemmas handler_defs = handle_start_def handle_choose_city_def handle_city_selected_def
  handle_add_url_def handle_url_received_def handle_list_cars_def handle_filters_menu_def
  handle_price_filter_def handle_price_min_def handle_price_max_def handle_year_filter_def
  handle_year_min_def handle_year_max_def handle_condition_filter_def
  handle_condition_selected_def handle_documents_filter_def handle_documents_selected_def
  handle_clear_filters_def handle_settings_def handle_help_def condition_map_def docs_map_def

lemmas access_defs = get_user_data_def put_user_def set_state_def send_message_def

lemmas sample_defs = sample_env_def sample_lower_def lower_char_def sample_to_int_def
  sample_car_data_def sample_url_def sample_city_def say_def dialog_def str_strip_def
  isspace_def str_remove_def empty_bot_def default_user_def no_filters_def new_car_def
  sample_car_def sample_env_price_def failing_env_def sample_url2_def sample_pass_bot_def
  sample_pass_envs_def sample_ready_bot_def sample_tracking_bot_def sample_adding_bot_def
  sample_filtering_bot_def sample_car_at_def sample_bot_at_def

lemmas float_defs = percent_change_def price_change_percent_def int_true_divide_def
  float_times_100_def round_magnitude_def round_half_even_def float_value_def
  bit_length.simps

subsection \<open>The filter check\<close>

text \<open>
  Claim C5. \<open>check_filters\<close> is a conjunction of independent rules. It returns \<open>False\<close>
  exactly when a set \<open>price_min\<close> exceeds the price of the snapshot, a set \<open>price_max\<close>
  is below it, or the snapshot has a year and a set \<open>year_min\<close> or \<open>year_max\<close> is
  violated in the same way. A price equal to \<open>price_min\<close> does not trigger the rule of
  \<open>price_min\<close>; without a year in the snapshot the year bounds play no role; and the
  values of \<open>condition\<close> and \<open>documents\<close> never change the result. A bound is set, and a
  year is present, when the source's truth test \<^verbatim>\<open>if x\<close> succeeds: the value is there
  and is not 0.
\<close>

theorem check_filters_rules:
  "(check_filters cd f = False \<longleftrightarrow>
      (\<exists>m. price_min f = Some m \<and> m \<noteq> 0 \<and> snap_price cd < m) \<or>
      (\<exists>m. price_max f = Some m \<and> m \<noteq> 0 \<and> m < snap_price cd) \<or>
      (\<exists>y. snap_year cd = Some y \<and> y \<noteq> 0 \<and>
         ((\<exists>m. year_min f = Some m \<and> m \<noteq> 0 \<and> y < m) \<or>
          (\<exists>m. year_max f = Some m \<and> m \<noteq> 0 \<and> m < y))))
   \<and> (price_min f = Some (snap_price cd) \<longrightarrow>
        check_filters cd f = check_filters cd (f\<lparr>price_min := None\<rparr>))
   \<and> (snap_year cd = None \<longrightarrow>
        check_filters cd f = check_filters cd (f\<lparr>year_min := None, year_max := None\<rparr>))
   \<and> check_filters cd (f\<lparr>condition := cv, documents := dv\<rparr>) = check_filters cd f"
proof -
  have rules: "check_filters cd f = False \<longleftrightarrow>
      (\<exists>m. price_min f = Some m \<and> m \<noteq> 0 \<and> snap_price cd < m) \<or>
      (\<exists>m. price_max f = Some m \<and> m \<noteq> 0 \<and> m < snap_price cd) \<or>
      (\<exists>y. snap_year cd = Some y \<and> y \<noteq> 0 \<and>
         ((\<exists>m. year_min f = Some m \<and> m \<noteq> 0 \<and> y < m) \<or>
          (\<exists>m. year_max f = Some m \<and> m \<noteq> 0 \<and> m < y)))"
    by (cases "price_min f"; cases "price_max f"; cases "snap_year cd"; cases "year_min f";
        cases "year_max f") (simp_all add: check_filters_def)
  have eq_min: "price_min f = Some (snap_price cd) \<longrightarrow>
        check_filters cd f = check_filters cd (f\<lparr>price_min := None\<rparr>)"
    by (simp add: check_filters_def)
  have no_year: "snap_year cd = None \<longrightarrow>
        check_filters cd f = check_filters cd (f\<lparr>year_min := None, year_max := None\<rparr>)"
    by (simp add: check_filters_def)
  have inert: "check_filters cd (f\<lparr>condition := cv, documents := dv\<rparr>) = check_filters cd f"
    by (simp add: check_filters_def)
  from rules eq_min no_year inert show ?thesis by blast
qed

theorem check_filters_rules_witness:
  "price_min (no_filters\<lparr>price_min := Some 1000000, year_min := Some 2020\<rparr>) =
     Some (snap_price (sample_car_data\<lparr>snap_year := None\<rparr>))
   \<and> snap_year (sample_car_data\<lparr>snap_year := None\<rparr>) = None
   \<and> check_filters (sample_car_data\<lparr>snap_year := None\<rparr>)
        (no_filters\<lparr>price_min := Some 1000000, year_min := Some 2020\<rparr>)
   \<and> \<not> check_filters sample_car_data (no_filters\<lparr>price_min := Some 1000001\<rparr>)"
  using check_filters_rules [of "sample_car_data\<lparr>snap_year := None\<rparr>"
          "no_filters\<lparr>price_min := Some 1000000, year_min := Some 2020\<rparr>"]
        check_filters_rules [of sample_car_data "no_filters\<lparr>price_min := Some 1000001\<rparr>"]
  by (simp add: sample_car_data_def no_filters_def check_filters_def)

subsection \<open>Effects of the access functions\<close>

lemma send_message_simps [simp]:
  "user_states (send_message b u m k) = user_states b"
  "user_data (send_message b u m k) = user_data b"
  "outbox (send_message b u m k) = outbox b @ [(u, m, k)]"
  by (simp_all add: send_message_def)

lemma set_state_simps [simp]:
  "user_states (set_state b u s) = (user_states b)(u \<mapsto> s)"
  "user_data (set_state b u s) = user_data b"
  "outbox (set_state b u s) = outbox b"
  by (simp_all add: set_state_def)

lemma put_user_simps [simp]:
  "user_states (put_user b u ud) = user_states b"
  "outbox (put_user b u ud) = outbox b"
  "map_of (user_data (put_user b u ud)) = (map_of (user_data b))(u \<mapsto> ud)"
  by (simp_all add: put_user_def update_conv')

lemma cars_of_simps [simp]:
  "cars_of (send_message b u m k) = cars_of b"
  "cars_of (set_state b u s) = cars_of b"
  "cars_of (put_user b u ud) = (cars_of b)(u := monitored_cars ud)"
  by (auto simp: cars_of_def fun_eq_iff)

lemma filters_of_simps [simp]:
  "filters_of (send_message b u m k) = filters_of b"
  "filters_of (set_state b u s) = filters_of b"
  "filters_of (put_user b u ud) = (filters_of b)(u := filters ud)"
  by (auto simp: filters_of_def fun_eq_iff)

lemma threshold_of_simps [simp]:
  "threshold_of (send_message b u m k) = threshold_of b"
  "threshold_of (set_state b u s) = threshold_of b"
  "threshold_of (put_user b u ud) = (threshold_of b)(u := price_threshold ud)"
  by (auto simp: threshold_of_def fun_eq_iff)

lemma state_of_simps [simp]:
  "state_of (send_message b u m k) = state_of b"
  "state_of (put_user b u ud) = state_of b"
  "state_of (set_state b u s) = (state_of b)(u := s)"
  by (auto simp: state_of_def fun_eq_iff)

lemma get_user_data_fst [simp]:
  "user_states (fst (get_user_data b u)) = user_states b"
  "outbox (fst (get_user_data b u)) = outbox b"
  "state_of (fst (get_user_data b u)) = state_of b"
  "map_of (user_data (fst (get_user_data b u))) =
     (map_of (user_data b))(u \<mapsto> snd (get_user_data b u))"
  by (auto simp: get_user_data_def state_of_def update_conv' fun_eq_iff split: option.splits)

lemma get_user_data_fst_obs [simp]:
  "cars_of (fst (get_user_data b u)) = cars_of b"
  "filters_of (fst (get_user_data b u)) = filters_of b"
  "threshold_of (fst (get_user_data b u)) = threshold_of b"
  by (auto simp: get_user_data_def cars_of_def filters_of_def threshold_of_def update_conv'
      default_user_def fun_eq_iff split: option.splits if_splits)

lemma get_user_data_snd [simp]:
  "monitored_cars (snd (get_user_data b u)) = cars_of b u"
  "filters (snd (get_user_data b u)) = filters_of b u"
  "price_threshold (snd (get_user_data b u)) = threshold_of b u"
  by (auto simp: get_user_data_def cars_of_def filters_of_def threshold_of_def default_user_def
      split: option.splits)

lemma send_parts_simps [simp]:
  "user_states (foldl (\<lambda>b i. send_message b u (f i) k) b xs) = user_states b"
  "user_data (foldl (\<lambda>b i. send_message b u (f i) k) b xs) = user_data b"
  by (induction xs arbitrary: b) simp_all

lemma send_car_list_simps [simp]:
  "user_states (send_car_list e b u cars) = user_states b"
  "user_data (send_car_list e b u cars) = user_data b"
  by (simp_all add: send_car_list_def Let_def)

lemma send_car_list_obs [simp]:
  "cars_of (send_car_list e b u cars) = cars_of b"
  "filters_of (send_car_list e b u cars) = filters_of b"
  "threshold_of (send_car_list e b u cars) = threshold_of b"
  "state_of (send_car_list e b u cars) = state_of b"
  by (auto simp: cars_of_def filters_of_def threshold_of_def state_of_def fun_eq_iff)

lemma get_user_data_present:
  "map_of (user_data b) u = Some ud \<Longrightarrow> get_user_data b u = (b, ud)"
  by (simp add: get_user_data_def)

subsection \<open>The handlers and the tracked listings\<close>

lemma handlers_cars_of [simp]:
  "cars_of (handle_start b u) = cars_of b"
  "cars_of (handle_choose_city b u) = cars_of b"
  "cars_of (handle_city_selected b u t) = cars_of b"
  "cars_of (handle_add_url b u) = cars_of b"
  "cars_of (snd (handle_list_cars e b u)) = cars_of b"
  "cars_of (handle_filters_menu b u) = cars_of b"
  "cars_of (handle_price_filter b u) = cars_of b"
  "cars_of (handle_price_min e b u t) = cars_of b"
  "cars_of (handle_price_max e b u t) = cars_of b"
  "cars_of (handle_year_filter b u) = cars_of b"
  "cars_of (handle_year_min e b u t) = cars_of b"
  "cars_of (handle_year_max e b u t) = cars_of b"
  "cars_of (handle_condition_filter b u) = cars_of b"
  "cars_of (handle_condition_selected b u t) = cars_of b"
  "cars_of (handle_documents_filter b u) = cars_of b"
  "cars_of (handle_documents_selected b u t) = cars_of b"
  "cars_of (handle_clear_filters b u) = cars_of b"
  "cars_of (handle_settings b u) = cars_of b"
  "cars_of (handle_help b u) = cars_of b"
  by (simp_all add: handler_defs case_prod_beta Let_def split: option.splits)

lemma handlers_threshold_of [simp]:
  "threshold_of (handle_start b u) = threshold_of b"
  "threshold_of (handle_choose_city b u) = threshold_of b"
  "threshold_of (handle_city_selected b u t) = threshold_of b"
  "threshold_of (handle_add_url b u) = threshold_of b"
  "threshold_of (snd (handle_list_cars e b u)) = threshold_of b"
  "threshold_of (handle_filters_menu b u) = threshold_of b"
  "threshold_of (handle_price_filter b u) = threshold_of b"
  "threshold_of (handle_price_min e b u t) = threshold_of b"
  "threshold_of (handle_price_max e b u t) = threshold_of b"
  "threshold_of (handle_year_filter b u) = threshold_of b"
  "threshold_of (handle_year_min e b u t) = threshold_of b"
  "threshold_of (handle_year_max e b u t) = threshold_of b"
  "threshold_of (handle_condition_filter b u) = threshold_of b"
  "threshold_of (handle_condition_selected b u t) = threshold_of b"
  "threshold_of (handle_documents_filter b u) = threshold_of b"
  "threshold_of (handle_documents_selected b u t) = threshold_of b"
  "threshold_of (handle_clear_filters b u) = threshold_of b"
  "threshold_of (handle_settings b u) = threshold_of b"
  "threshold_of (handle_help b u) = threshold_of b"
  "threshold_of (snd (handle_url_received e b u t)) = threshold_of b"
  by (simp_all add: handler_defs case_prod_beta Let_def split: option.splits fetch_result.splits)

lemma handle_url_received_cars_of:
  "cars_of (snd (handle_url_received e b u url)) = cars_of b \<or>
   (\<exists>cd. fetch_car_data e url = Fetch_data cd \<and> check_filters cd (filters_of b u) \<and>
      has_site_marker url \<and> map_of (cars_of b u) url = None \<and>
      cars_of (snd (handle_url_received e b u url)) =
        (cars_of b)(u := AList.update url (new_car e cd) (cars_of b u)))"
  by (auto simp: handle_url_received_def has_site_marker_def case_prod_beta Let_def
      cars_of_def[of b u] split: option.splits fetch_result.splits)

text \<open>The branches of the dispatcher, as a case rule.\<close>

lemma handle_message_branches:
  fixes e b ev
  defines "u \<equiv> event_user_id ev" and "msg \<equiv> str_strip (event_text ev)"
  defines "st \<equiv> state_of b u"
  shows "handle_message e b ev =
     (if msg = BACK_LABEL then (None, handle_start b u)
      else if st = STATE_MAIN_MENU \<or> str_lower e msg \<in> set START_WORDS then
        (if msg = LBL_CHOOSE_CITY then (None, handle_choose_city b u)
         else if msg = LBL_ADD_URL then (None, handle_add_url b u)
         else if msg = LBL_LIST_CARS then handle_list_cars e b u
         else if msg = LBL_FILTERS then (None, handle_filters_menu b u)
         else if msg = LBL_SETTINGS then (None, handle_settings b u)
         else if msg = LBL_HELP then (None, handle_help b u)
         else (None, handle_start b u))
      else
        (case st of
           STATE_MAIN_MENU \<Rightarrow> (None, b)
         | STATE_CHOOSING_CITY \<Rightarrow> (None, handle_city_selected b u msg)
         | STATE_ADDING_URL \<Rightarrow> handle_url_received e b u msg
         | STATE_SETTING_FILTERS \<Rightarrow>
             (if msg = LBL_PRICE then (None, handle_price_filter b u)
              else if msg = LBL_YEAR then (None, handle_year_filter b u)
              else if msg = LBL_CONDITION then (None, handle_condition_filter b u)
              else if msg = LBL_DOCUMENTS then (None, handle_documents_filter b u)
              else if msg = LBL_CLEAR_FILTERS then (None, handle_clear_filters b u)
              else (None, b))
         | STATE_PRICE_MIN \<Rightarrow> (None, handle_price_min e b u msg)
         | STATE_PRICE_MAX \<Rightarrow> (None, handle_price_max e b u msg)
         | STATE_YEAR_MIN \<Rightarrow> (None, handle_year_min e b u msg)
         | STATE_YEAR_MAX \<Rightarrow> (None, handle_year_max e b u msg)
         | STATE_CONDITION \<Rightarrow> (None, handle_condition_selected b u msg)
         | STATE_DOCUMENTS \<Rightarrow> (None, handle_documents_selected b u msg)))"
  unfolding handle_message_def Let_def u_def msg_def st_def state_of_def ..

lemma handle_message_cases:
  "handle_message e b ev =
     handle_url_received e b (event_user_id ev) (str_strip (event_text ev)) \<or>
   cars_of (snd (handle_message e b ev)) = cars_of b \<and>
   threshold_of (snd (handle_message e b ev)) = threshold_of b"
proof -
  define u where "u = event_user_id ev"
  define msg where "msg = str_strip (event_text ev)"
  define st where "st = state_of b u"
  note hm = handle_message_branches [of e b ev, folded u_def msg_def, folded st_def]
  show ?thesis
  proof (cases "msg = BACK_LABEL")
    case True
    then show ?thesis unfolding hm by simp
  next
    case False
    show ?thesis
    proof (cases "st = STATE_MAIN_MENU \<or> str_lower e msg \<in> set START_WORDS")
      case True
      with False show ?thesis unfolding hm by simp
    next
      case nomain: False
      with False show ?thesis unfolding hm u_def[symmetric] msg_def[symmetric]
        by (cases st) simp_all
    qed
  qed
qed

lemma handle_message_cars_of:
  "cars_of (snd (handle_message e b ev)) = cars_of b \<or>
   (\<exists>cd url. url = str_strip (event_text ev) \<and>
      fetch_car_data e url = Fetch_data cd \<and>
      check_filters cd (filters_of b (event_user_id ev)) \<and>
      has_site_marker url \<and> map_of (cars_of b (event_user_id ev)) url = None \<and>
      cars_of (snd (handle_message e b ev)) =
        (cars_of b)(event_user_id ev :=
           AList.update url (new_car e cd) (cars_of b (event_user_id ev))))"
proof -
  consider (url) "handle_message e b ev =
       handle_url_received e b (event_user_id ev) (str_strip (event_text ev))"
    | (other) "cars_of (snd (handle_message e b ev)) = cars_of b"
    using handle_message_cases by blast
  then show ?thesis
  proof cases
    case url
    show ?thesis
      using handle_url_received_cars_of [of e b "event_user_id ev" "str_strip (event_text ev)"]
      unfolding url by blast
  next
    case other
    then show ?thesis by blast
  qed
qed

lemma handle_message_threshold_of [simp]:
  "threshold_of (snd (handle_message e b ev)) = threshold_of b"
  using handle_message_cases [of e b ev] by auto

text \<open>What a message does to the listing a user tracks under a URL.\<close>

lemma handle_message_lookup_car:
  "lookup_car (snd (handle_message e b ev)) u url = lookup_car b u url \<or>
   (lookup_car b u url = None \<and> has_site_marker url \<and>
    (\<exists>cd. fetch_car_data e url = Fetch_data cd \<and>
          lookup_car (snd (handle_message e b ev)) u url = Some (new_car e cd)))"
proof -
  consider (same) "cars_of (snd (handle_message e b ev)) = cars_of b"
    | (added) cd where "has_site_marker (str_strip (event_text ev))"
        "fetch_car_data e (str_strip (event_text ev)) = Fetch_data cd"
        "map_of (cars_of b (event_user_id ev)) (str_strip (event_text ev)) = None"
        "cars_of (snd (handle_message e b ev)) =
           (cars_of b)(event_user_id ev :=
              AList.update (str_strip (event_text ev)) (new_car e cd)
                (cars_of b (event_user_id ev)))"
    using handle_message_cars_of [of e b ev] by blast
  then show ?thesis
  proof cases
    case same
    then show ?thesis by (simp add: lookup_car_def)
  next
    case added
    show ?thesis
    proof (cases "u = event_user_id ev \<and> url = str_strip (event_text ev)")
      case True
      with added show ?thesis by (auto simp: lookup_car_def update_conv')
    next
      case False
      with added(4) have "lookup_car (snd (handle_message e b ev)) u url = lookup_car b u url"
        by (auto simp: lookup_car_def update_conv')
      then show ?thesis by simp
    qed
  qed
qed

subsection \<open>One turn of the polling loop\<close>

lemma percent_change_of_price_change_percent:
  "price_change_percent old new = Inr percent \<Longrightarrow>
   \<exists>signed_percent. percent_change old new = Inr signed_percent \<and>
     percent = float_abs signed_percent"
  by (auto simp: price_change_percent_def split: sum.splits)

lemma monitor_listing_fetch_failure:
  "fetch_car_data e url = Fetch_raises \<or> fetch_car_data e url = Fetch_nothing \<Longrightarrow>
   monitor_listing e threshold u url c = (c, [])"
  by (auto simp: monitor_listing_def monitor_listing_body_def)

lemma monitor_listing_body_error:
  "monitor_listing_body e threshold u url c = (Some err, c', out) \<Longrightarrow>
   out = [] \<and> c'\<lparr>last_check := last_check c\<rparr> = c"
  by (auto simp: monitor_listing_body_def Let_def price_change_percent_def
      split: fetch_result.splits if_splits sum.splits)

lemma monitor_listing_history:
  "prefix (price_history c) (price_history (fst (monitor_listing e threshold u url c)))"
  by (simp add: monitor_listing_def monitor_listing_body_def Let_def
      split: fetch_result.splits sum.splits)

lemma monitor_listing_car_ok:
  "car_ok c \<Longrightarrow> car_ok (fst (monitor_listing e threshold u url c))"
  by (simp add: car_ok_def monitor_listing_def monitor_listing_body_def Let_def
      split: fetch_result.splits sum.splits)

lemma monitor_listing_frame:
  "title (fst (monitor_listing e threshold u url c)) = title c"
  "initial_price (fst (monitor_listing e threshold u url c)) = initial_price c"
  "site (fst (monitor_listing e threshold u url c)) = site c"
  "added_date (fst (monitor_listing e threshold u url c)) = added_date c"
  by (simp_all add: monitor_listing_def monitor_listing_body_def Let_def
      split: fetch_result.splits sum.splits)

lemma monitor_listing_sends_alerts:
  "x \<in> set (snd (monitor_listing e threshold u url c)) \<Longrightarrow> is_alert_for u url x"
  by (auto simp: monitor_listing_def monitor_listing_body_def Let_def is_alert_for_def
      split: fetch_result.splits sum.splits if_splits)

text \<open>The two outcomes of a turn that the claims about price changes speak of.\<close>

lemma monitor_listing_changed:
  assumes "fetch_car_data e url = Fetch_data nd"
    and "snap_price nd \<noteq> price c"
    and "price_change_percent (price c) (snap_price nd) = Inr percent"
    and "float_ge percent threshold"
  shows "\<exists>signed_percent. percent_change (price c) (snap_price nd) = Inr signed_percent \<and>
     monitor_listing e threshold u url c =
       (c\<lparr>last_check := now e 0, price := snap_price nd,
          price_history := price_history c @
            [\<lparr>entry_price = snap_price nd, entry_date = now e 1\<rparr>]\<rparr>,
        [(u, Msg_price_alert
               \<lparr>alert = (if snap_price nd < price c then Good_news else Attention),
                emoji = (if snap_price nd < price c then Chart_decreasing
                         else Chart_increasing),
                alert_title = title c, old_price = price c, new_price = snap_price nd,
                change = snap_price nd - price c, change_percent = signed_percent,
                savings = (if snap_price nd < price c then Some (price c - snap_price nd)
                           else None),
                alert_url = url\<rparr>,
          No_keyboard)])"
proof -
  from percent_change_of_price_change_percent [OF assms(3)]
  obtain signed_percent where "percent_change (price c) (snap_price nd) = Inr signed_percent"
    by blast
  with assms show ?thesis
    by (simp add: monitor_listing_def monitor_listing_body_def Let_def)
qed

lemma monitor_listing_unchanged:
  assumes "fetch_car_data e url = Fetch_data nd"
    and "snap_price nd = price c \<or>
         (\<exists>percent. price_change_percent (price c) (snap_price nd) = Inr percent \<and>
            \<not> float_ge percent threshold)"
  shows "monitor_listing e threshold u url c = (c\<lparr>last_check := now e 0\<rparr>, [])"
  using assms by (auto simp: monitor_listing_def monitor_listing_body_def Let_def)

subsection \<open>The polling pass\<close>

lemma monitor_cars_map_of:
  "map_of (fst (monitor_cars es threshold u xs)) url =
     map_option (\<lambda>c. fst (monitor_listing (es u url) threshold u url c)) (map_of xs url)"
  by (induction xs) (auto simp: case_prod_beta)

lemma monitor_cars_keys:
  "map fst (fst (monitor_cars es threshold u xs)) = map fst xs"
  by (induction xs) (auto simp: case_prod_beta)

lemma monitor_cars_out:
  "snd (monitor_cars es threshold u xs) =
     concat (map (\<lambda>(url, c). snd (monitor_listing (es u url) threshold u url c)) xs)"
  by (induction xs) (auto simp: case_prod_beta)

lemma monitor_users_map_of:
  "map_of (fst (monitor_users es uds)) u =
     map_option
       (\<lambda>d. d\<lparr>monitored_cars :=
                 fst (monitor_cars es (price_threshold d) u (monitored_cars d))\<rparr>)
       (map_of uds u)"
  by (induction uds) (auto simp: case_prod_beta)

lemma monitor_users_keys:
  "map fst (fst (monitor_users es uds)) = map fst uds"
  by (induction uds) (auto simp: case_prod_beta)

lemma monitor_users_out:
  "snd (monitor_users es uds) =
     concat (map (\<lambda>(u, d). snd (monitor_cars es (price_threshold d) u (monitored_cars d))) uds)"
  by (induction uds) (auto simp: case_prod_beta)

lemma monitor_prices_simps [simp]:
  "user_states (monitor_prices es b) = user_states b"
  "outbox (monitor_prices es b) = outbox b @ snd (monitor_users es (user_data b))"
  "map fst (user_data (monitor_prices es b)) = map fst (user_data b)"
  by (simp_all add: monitor_prices_def case_prod_beta monitor_users_keys)

lemma monitor_prices_state_of [simp]: "state_of (monitor_prices es b) = state_of b"
  by (rule ext) (simp add: state_of_def)

lemma monitor_prices_obs [simp]:
  "filters_of (monitor_prices es b) = filters_of b"
  "threshold_of (monitor_prices es b) = threshold_of b"
  by (auto simp: monitor_prices_def case_prod_beta filters_of_def threshold_of_def
      monitor_users_map_of fun_eq_iff split: option.splits)

lemma monitor_prices_cars_of:
  "cars_of (monitor_prices es b) u = fst (monitor_cars es (threshold_of b u) u (cars_of b u))"
  by (auto simp: monitor_prices_def case_prod_beta cars_of_def threshold_of_def
      monitor_users_map_of split: option.splits)

lemma monitor_prices_lookup_car:
  "lookup_car (monitor_prices es b) u url =
     map_option (\<lambda>c. fst (monitor_listing (es u url) (threshold_of b u) u url c))
       (lookup_car b u url)"
  by (simp add: lookup_car_def monitor_prices_cars_of monitor_cars_map_of)

text \<open>What the turn of a stored listing sends is in the outbox after the pass.\<close>

lemma monitor_prices_sends_turn:
  assumes "lookup_car b u url = Some c"
    and "x \<in> set (snd (monitor_listing (es u url) (threshold_of b u) u url c))"
  shows "x \<in> set (snd (monitor_users es (user_data b)))"
proof -
  from assms(1) obtain d where d: "map_of (user_data b) u = Some d"
    and c: "map_of (monitored_cars d) url = Some c"
    by (auto simp: lookup_car_def cars_of_def split: option.splits)
  from d have thr: "threshold_of b u = price_threshold d"
    by (simp add: threshold_of_def)
  from c have "(url, c) \<in> set (monitored_cars d)" by (rule map_of_SomeD)
  with assms(2) have "x \<in> set (snd (monitor_cars es (price_threshold d) u (monitored_cars d)))"
    unfolding thr monitor_cars_out by force
  moreover from d have "(u, d) \<in> set (user_data b)" by (rule map_of_SomeD)
  ultimately show ?thesis
    unfolding monitor_users_out by force
qed

text \<open>With every key once, a notification for a listing comes from the turn of that listing.\<close>

lemma monitor_prices_alert_origin:
  assumes "keys_distinct b"
    and "x \<in> set (snd (monitor_users es (user_data b)))"
    and "is_alert_for u url x"
  shows "\<exists>c. lookup_car b u url = Some c \<and>
     x \<in> set (snd (monitor_listing (es u url) (threshold_of b u) u url c))"
proof -
  from assms(2) obtain u' d where ud: "(u', d) \<in> set (user_data b)"
    and x1: "x \<in> set (snd (monitor_cars es (price_threshold d) u' (monitored_cars d)))"
    unfolding monitor_users_out by auto
  from x1 obtain url' c where uc: "(url', c) \<in> set (monitored_cars d)"
    and x2: "x \<in> set (snd (monitor_listing (es u' url') (price_threshold d) u' url' c))"
    unfolding monitor_cars_out by auto
  from monitor_listing_sends_alerts [OF x2] assms(3) have same: "u' = u" "url' = url"
    by (auto simp: is_alert_for_def split: prod.splits message.splits)
  from assms(1) ud have d: "map_of (user_data b) u = Some d"
    unfolding same keys_distinct_def by simp
  then have cars: "cars_of b u = monitored_cars d"
    by (simp add: cars_of_def)
  from assms(1) have "distinct (map fst (cars_of b u))"
    by (simp add: keys_distinct_def)
  with uc have "map_of (cars_of b u) url = Some c"
    unfolding cars same by simp
  moreover from d have "threshold_of b u = price_threshold d"
    by (simp add: threshold_of_def)
  ultimately show ?thesis
    using x2 unfolding same by (auto simp: lookup_car_def)
qed

subsection \<open>Every key once\<close>

lemma user_keys_access:
  "distinct (map fst (user_data b)) \<Longrightarrow> distinct (map fst (user_data (fst (get_user_data b u))))"
  "distinct (map fst (user_data b)) \<Longrightarrow> distinct (map fst (user_data (put_user b u ud)))"
  by (simp_all add: get_user_data_def put_user_def distinct_update split: option.splits)

lemma user_keys_handlers:
  assumes "distinct (map fst (user_data b))"
  shows "distinct (map fst (user_data (handle_start b u)))"
    "distinct (map fst (user_data (handle_choose_city b u)))"
    "distinct (map fst (user_data (handle_city_selected b u t)))"
    "distinct (map fst (user_data (handle_add_url b u)))"
    "distinct (map fst (user_data (snd (handle_list_cars e b u))))"
    "distinct (map fst (user_data (handle_filters_menu b u)))"
    "distinct (map fst (user_data (handle_price_filter b u)))"
    "distinct (map fst (user_data (handle_price_min e b u t)))"
    "distinct (map fst (user_data (handle_price_max e b u t)))"
    "distinct (map fst (user_data (handle_year_filter b u)))"
    "distinct (map fst (user_data (handle_year_min e b u t)))"
    "distinct (map fst (user_data (handle_year_max e b u t)))"
    "distinct (map fst (user_data (handle_condition_filter b u)))"
    "distinct (map fst (user_data (handle_condition_selected b u t)))"
    "distinct (map fst (user_data (handle_documents_filter b u)))"
    "distinct (map fst (user_data (handle_documents_selected b u t)))"
    "distinct (map fst (user_data (handle_clear_filters b u)))"
    "distinct (map fst (user_data (handle_settings b u)))"
    "distinct (map fst (user_data (handle_help b u)))"
    "distinct (map fst (user_data (snd (handle_url_received e b u t))))"
  using assms
  by (simp_all add: handler_defs case_prod_beta Let_def user_keys_access
      split: option.splits fetch_result.splits)

lemma user_keys_handle_message:
  assumes "distinct (map fst (user_data b))"
  shows "distinct (map fst (user_data (snd (handle_message e b ev))))"
proof -
  define u where "u = event_user_id ev"
  define msg where "msg = str_strip (event_text ev)"
  define st where "st = state_of b u"
  note hm = handle_message_branches [of e b ev, folded u_def msg_def, folded st_def]
  note keys = user_keys_handlers [OF assms]
  show ?thesis
  proof (cases "msg = BACK_LABEL")
    case True
    then show ?thesis unfolding hm by (simp add: keys)
  next
    case False
    show ?thesis
    proof (cases "st = STATE_MAIN_MENU \<or> str_lower e msg \<in> set START_WORDS")
      case True
      with False show ?thesis unfolding hm by (simp add: keys)
    next
      case nomain: False
      with False show ?thesis unfolding hm
        by (cases st) (simp_all add: keys assms)
    qed
  qed
qed

lemma reachable_keys_distinct: "reachable b \<Longrightarrow> keys_distinct b"
proof (induction rule: reachable.induct)
  case reachable_empty
  then show ?case by (simp add: keys_distinct_def cars_of_def empty_bot_def)
next
  case (reachable_message b e ev)
  then have users: "distinct (map fst (user_data b))"
    and cars: "\<And>u. distinct (map fst (cars_of b u))"
    by (simp_all add: keys_distinct_def)
  have "distinct (map fst (cars_of (snd (handle_message e b ev)) u))" for u
    using handle_message_cars_of [of e b ev] cars by (auto simp: distinct_update)
  with user_keys_handle_message [OF users] show ?case
    by (simp add: keys_distinct_def)
next
  case (reachable_monitor b es)
  then show ?case
    by (simp add: keys_distinct_def monitor_prices_cars_of monitor_cars_keys)
next
  case (reachable_restart b)
  then show ?case
    by (simp add: keys_distinct_def restart_def cars_of_def)
qed

subsection \<open>Quotients beyond the floats\<close>

lemma bit_length_upper: "n < 2 ^ bit_length n"
proof (induction n rule: bit_length.induct)
  case (1 n)
  show ?case
  proof (cases "n = 0")
    case True
    then show ?thesis by (simp add: bit_length.simps)
  next
    case False
    with 1 have "n div 2 < 2 ^ bit_length (n div 2)" by simp
    then have "n < 2 * 2 ^ bit_length (n div 2)" by linarith
    with False show ?thesis by (simp add: bit_length.simps [of n])
  qed
qed

lemma bit_length_lower: "n \<noteq> 0 \<Longrightarrow> 2 ^ (bit_length n - 1) \<le> n"
proof (induction n rule: bit_length.induct)
  case (1 n)
  show ?case
  proof (cases "n div 2 = 0")
    case True
    with 1(2) have "n = 1" by linarith
    then show ?thesis by (simp add: bit_length.simps)
  next
    case False
    with 1 have "2 ^ (bit_length (n div 2) - 1) \<le> n div 2" by simp
    then have "2 * 2 ^ (bit_length (n div 2) - 1) \<le> n" by linarith
    moreover from False have "0 < bit_length (n div 2)"
      by (simp add: bit_length.simps [of "n div 2"])
    ultimately show ?thesis
      using 1(2) by (simp add: bit_length.simps [of n] power_Suc [symmetric] del: power_Suc)
  qed
qed

lemma round_magnitude_overflow:
  assumes "2 ^ 1024 \<le> p"
  shows "round_magnitude p 1 = None"
proof -
  from assms have nz: "p \<noteq> 0" by auto
  have big: "1024 < bit_length p"
  proof (rule power_less_imp_less_exp)
    show "(1::nat) < 2" by simp
    show "(2::nat) ^ 1024 < 2 ^ bit_length p"
      using assms bit_length_upper by (rule le_less_trans)
  qed
  have one: "bit_length 1 = 1" "bit_length (Suc 0) = Suc 0"
    by (simp_all add: bit_length.simps)
  have low: "2 ^ (bit_length p - 1) \<le> p" using nz by (rule bit_length_lower)
  from big have natd: "nat (int (bit_length p) - 1) = bit_length p - Suc 0"
    by simp
  show ?thesis
    using nz big low unfolding round_magnitude_def Let_def by (simp add: one natd)
qed

lemma huge_price_raises_overflow:
  assumes "2 ^ 1024 \<le> new - old" and "old = 1"
  shows "price_change_percent old new = Inl OverflowError"
proof -
  from assms(1) have "(2::nat) ^ 1024 \<le> nat \<bar>new - old\<bar>"
    by (simp add: le_nat_iff)
  then have "round_magnitude (nat \<bar>new - old\<bar>) 1 = None"
    by (rule round_magnitude_overflow)
  with assms(2) show ?thesis
    by (simp add: price_change_percent_def percent_change_def int_true_divide_def)
qed

lemma overflow_example: "price_change_percent 1 (10 ^ 400) = Inl OverflowError"
  by (rule huge_price_raises_overflow) simp_all

subsection \<open>Price changes\<close>

text \<open>
  Claim C1 states the test on the percent delta \<open>|new - old| / old * 100\<close> as a number.
  Line 776 computes it in floating point. With the threshold 29, a listing at 100 and a
  fetched price of 129, the delta is 29, but the quotient 0.29 rounded to a float and
  multiplied by 100 gives 28.999999999999996: the pass only writes \<open>last_check\<close> and
  sends nothing. With the threshold 5, a listing at 1 and a fetched price of \<open>10 ^ 400\<close>,
  the quotient is beyond the floats and line 776 raises \<^verbatim>\<open>OverflowError\<close>: again the pass
  only writes \<open>last_check\<close>.
\<close>

theorem rounded_percent_misses_threshold:
  "((29::rat) \<le> \<bar>of_int (129 - 100)\<bar> / of_int 100 * 100
    \<and> lookup_car (sample_bot_at 100 29) 1 sample_url = Some (sample_car_at 100)
    \<and> price (sample_car_at 100) = 100
    \<and> threshold_of (sample_bot_at 100 29) 1 = 29
    \<and> fetch_car_data (sample_env_price 129) sample_url =
        Fetch_data (sample_car_data\<lparr>snap_price := 129\<rparr>)
    \<and> price_change_percent 100 129 = Inr (Finite 8162774324609023 (- 48))
    \<and> float_value 8162774324609023 (- 48) < 29
    \<and> lookup_car (monitor_prices (\<lambda>u url. sample_env_price 129) (sample_bot_at 100 29))
         1 sample_url = Some ((sample_car_at 100)\<lparr>last_check := 1000\<rparr>)
    \<and> outbox (monitor_prices (\<lambda>u url. sample_env_price 129) (sample_bot_at 100 29)) = [])
   \<and> ((5::rat) \<le> \<bar>of_int (10 ^ 400 - 1)\<bar> / of_int 1 * 100
    \<and> lookup_car (sample_bot_at 1 5) 1 sample_url = Some (sample_car_at 1)
    \<and> price (sample_car_at 1) = 1
    \<and> threshold_of (sample_bot_at 1 5) 1 = 5
    \<and> fetch_car_data (sample_env_price (10 ^ 400)) sample_url =
        Fetch_data (sample_car_data\<lparr>snap_price := 10 ^ 400\<rparr>)
    \<and> price_change_percent 1 (10 ^ 400) = Inl OverflowError
    \<and> lookup_car (monitor_prices (\<lambda>u url. sample_env_price (10 ^ 400)) (sample_bot_at 1 5))
         1 sample_url = Some ((sample_car_at 1)\<lparr>last_check := 1000\<rparr>)
    \<and> outbox (monitor_prices (\<lambda>u url. sample_env_price (10 ^ 400)) (sample_bot_at 1 5)) = [])"
proof (rule conjI)
  show "(29::rat) \<le> \<bar>of_int (129 - 100)\<bar> / of_int 100 * 100
    \<and> lookup_car (sample_bot_at 100 29) 1 sample_url = Some (sample_car_at 100)
    \<and> price (sample_car_at 100) = 100
    \<and> threshold_of (sample_bot_at 100 29) 1 = 29
    \<and> fetch_car_data (sample_env_price 129) sample_url =
        Fetch_data (sample_car_data\<lparr>snap_price := 129\<rparr>)
    \<and> price_change_percent 100 129 = Inr (Finite 8162774324609023 (- 48))
    \<and> float_value 8162774324609023 (- 48) < 29
    \<and> lookup_car (monitor_prices (\<lambda>u url. sample_env_price 129) (sample_bot_at 100 29))
         1 sample_url = Some ((sample_car_at 100)\<lparr>last_check := 1000\<rparr>)
    \<and> outbox (monitor_prices (\<lambda>u url. sample_env_price 129) (sample_bot_at 100 29)) = []"
    by (simp add: sample_defs lookup_car_def cars_of_def threshold_of_def monitor_prices_def
        monitor_listing_def monitor_listing_body_def float_defs Let_def)
  show "(5::rat) \<le> \<bar>of_int (10 ^ 400 - 1)\<bar> / of_int 1 * 100
    \<and> lookup_car (sample_bot_at 1 5) 1 sample_url = Some (sample_car_at 1)
    \<and> price (sample_car_at 1) = 1
    \<and> threshold_of (sample_bot_at 1 5) 1 = 5
    \<and> fetch_car_data (sample_env_price (10 ^ 400)) sample_url =
        Fetch_data (sample_car_data\<lparr>snap_price := 10 ^ 400\<rparr>)
    \<and> price_change_percent 1 (10 ^ 400) = Inl OverflowError
    \<and> lookup_car (monitor_prices (\<lambda>u url. sample_env_price (10 ^ 400)) (sample_bot_at 1 5))
         1 sample_url = Some ((sample_car_at 1)\<lparr>last_check := 1000\<rparr>)
    \<and> outbox (monitor_prices (\<lambda>u url. sample_env_price (10 ^ 400)) (sample_bot_at 1 5)) = []"
    by (simp add: sample_defs lookup_car_def cars_of_def threshold_of_def monitor_prices_def
        monitor_listing_def monitor_listing_body_def huge_price_raises_overflow Let_def)
qed

text \<open>
  Claim C1, amended. For a tracked listing and a fetched price that differs from the
  current one, when the percent delta as line 776 computes it in floating point exists
  (the current price is not 0 and the quotient is within the range of the floats) and is
  at least the user's threshold, the polling pass stores the new price, appends an entry
  with the new price to the history and puts one notification into the outbox, which
  carries the old price, the new price, the difference, the percentage and the direction,
  and for a lower price the savings \<open>old - new\<close>.
\<close>

theorem poll_update_above_threshold:
  assumes "lookup_car b u url = Some c"
    and "fetch_car_data (es u url) url = Fetch_data nd"
    and "snap_price nd \<noteq> price c"
    and "price_change_percent (price c) (snap_price nd) = Inr percent"
    and "float_ge percent (threshold_of b u)"
  shows "\<exists>a sent_in_pass.
       lookup_car (monitor_prices es b) u url =
         Some (c\<lparr>last_check := now (es u url) 0, price := snap_price nd,
                 price_history := price_history c @
                   [\<lparr>entry_price = snap_price nd, entry_date = now (es u url) 1\<rparr>]\<rparr>)
     \<and> outbox (monitor_prices es b) = outbox b @ sent_in_pass
     \<and> (u, Msg_price_alert a, No_keyboard) \<in> set sent_in_pass
     \<and> old_price a = price c \<and> new_price a = snap_price nd
     \<and> change a = snap_price nd - price c
     \<and> percent_change (price c) (snap_price nd) = Inr (change_percent a)
     \<and> alert a = (if snap_price nd < price c then Good_news else Attention)
     \<and> emoji a = (if snap_price nd < price c then Chart_decreasing else Chart_increasing)
     \<and> savings a = (if snap_price nd < price c then Some (price c - snap_price nd) else None)
     \<and> alert_title a = title c \<and> alert_url a = url"
proof -
  from monitor_listing_changed [OF assms(2-5), of u]
  obtain signed_percent where sp: "percent_change (price c) (snap_price nd) = Inr signed_percent"
    and turn: "monitor_listing (es u url) (threshold_of b u) u url c =
       (c\<lparr>last_check := now (es u url) 0, price := snap_price nd,
          price_history := price_history c @
            [\<lparr>entry_price = snap_price nd, entry_date = now (es u url) 1\<rparr>]\<rparr>,
        [(u, Msg_price_alert
               \<lparr>alert = (if snap_price nd < price c then Good_news else Attention),
                emoji = (if snap_price nd < price c then Chart_decreasing
                         else Chart_increasing),
                alert_title = title c, old_price = price c, new_price = snap_price nd,
                change = snap_price nd - price c, change_percent = signed_percent,
                savings = (if snap_price nd < price c then Some (price c - snap_price nd)
                           else None),
                alert_url = url\<rparr>,
          No_keyboard)])"
    by blast
  define a where "a = \<lparr>alert = (if snap_price nd < price c then Good_news else Attention),
                emoji = (if snap_price nd < price c then Chart_decreasing
                         else Chart_increasing),
                alert_title = title c, old_price = price c, new_price = snap_price nd,
                change = snap_price nd - price c, change_percent = signed_percent,
                savings = (if snap_price nd < price c then Some (price c - snap_price nd)
                           else None),
                alert_url = url\<rparr>"
  have stored: "lookup_car (monitor_prices es b) u url =
         Some (c\<lparr>last_check := now (es u url) 0, price := snap_price nd,
                 price_history := price_history c @
                   [\<lparr>entry_price = snap_price nd, entry_date = now (es u url) 1\<rparr>]\<rparr>)"
    by (simp add: monitor_prices_lookup_car assms(1) turn)
  have "(u, Msg_price_alert a, No_keyboard) \<in>
      set (snd (monitor_listing (es u url) (threshold_of b u) u url c))"
    by (simp add: turn a_def)
  with assms(1) have sent: "(u, Msg_price_alert a, No_keyboard) \<in>
      set (snd (monitor_users es (user_data b)))"
    by (rule monitor_prices_sends_turn)
  have fields: "old_price a = price c \<and> new_price a = snap_price nd
     \<and> change a = snap_price nd - price c
     \<and> percent_change (price c) (snap_price nd) = Inr (change_percent a)
     \<and> alert a = (if snap_price nd < price c then Good_news else Attention)
     \<and> emoji a = (if snap_price nd < price c then Chart_decreasing else Chart_increasing)
     \<and> savings a = (if snap_price nd < price c then Some (price c - snap_price nd) else None)
     \<and> alert_title a = title c \<and> alert_url a = url"
    by (simp add: a_def sp)
  from stored sent fields show ?thesis
    by (intro exI [of _ a] exI [of _ "snd (monitor_users es (user_data b))"]) simp
qed

theorem poll_update_above_threshold_witness:
  "lookup_car (sample_bot_at 1000000 5) 1 sample_url = Some (sample_car_at 1000000)
   \<and> fetch_car_data (sample_env_price 900000) sample_url =
       Fetch_data (sample_car_data\<lparr>snap_price := 900000\<rparr>)
   \<and> snap_price (sample_car_data\<lparr>snap_price := 900000\<rparr>) \<noteq> price (sample_car_at 1000000)
   \<and> price_change_percent (price (sample_car_at 1000000)) 900000 =
       Inr (Finite 5629499534213120 (- 49))
   \<and> float_value 5629499534213120 (- 49) = 10
   \<and> float_ge (Finite 5629499534213120 (- 49)) (threshold_of (sample_bot_at 1000000 5) 1)
   \<and> (\<exists>a sent_in_pass.
        lookup_car (monitor_prices (\<lambda>u url. sample_env_price 900000) (sample_bot_at 1000000 5))
          1 sample_url =
          Some ((sample_car_at 1000000)\<lparr>last_check := 1000, price := 900000,
             price_history := [\<lparr>entry_price = 1000000, entry_date = 1002\<rparr>,
                               \<lparr>entry_price = 900000, entry_date = 1001\<rparr>]\<rparr>)
      \<and> outbox (monitor_prices (\<lambda>u url. sample_env_price 900000) (sample_bot_at 1000000 5)) =
          sent_in_pass
      \<and> (1, Msg_price_alert a, No_keyboard) \<in> set sent_in_pass
      \<and> old_price a = 1000000 \<and> new_price a = 900000 \<and> change a = - 100000
      \<and> change_percent a = Finite (- 5629499534213120) (- 49)
      \<and> alert a = Good_news \<and> emoji a = Chart_decreasing \<and> savings a = Some 100000)"
proof -
  have stored: "lookup_car (sample_bot_at 1000000 5) 1 sample_url = Some (sample_car_at 1000000)"
    by (simp add: sample_defs lookup_car_def cars_of_def)
  have fetched: "fetch_car_data (sample_env_price 900000) sample_url =
       Fetch_data (sample_car_data\<lparr>snap_price := 900000\<rparr>)"
    by (simp add: sample_defs)
  have differs: "snap_price (sample_car_data\<lparr>snap_price := 900000\<rparr>) \<noteq>
      price (sample_car_at 1000000)"
    by (simp add: sample_defs)
  have percent: "price_change_percent (price (sample_car_at 1000000))
      (snap_price (sample_car_data\<lparr>snap_price := 900000\<rparr>)) =
       Inr (Finite 5629499534213120 (- 49))"
    by (simp add: sample_defs float_defs Let_def)
  have signed: "percent_change 1000000 900000 = Inr (Finite (- 5629499534213120) (- 49))"
    by (simp add: float_defs Let_def)
  have reached: "float_ge (Finite 5629499534213120 (- 49))
      (threshold_of (sample_bot_at 1000000 5) 1)"
    by (simp add: sample_defs threshold_of_def float_value_def)
  have ten: "float_value 5629499534213120 (- 49) = 10"
    by (simp add: float_value_def)
  note inst = poll_update_above_threshold [where es = "\<lambda>u url. sample_env_price 900000",
      OF stored fetched differs percent reached]
  have vals: "price (sample_car_at 1000000) = 1000000"
    "price_history (sample_car_at 1000000) = [\<lparr>entry_price = 1000000, entry_date = 1002\<rparr>]"
    "now (sample_env_price 900000) 0 = 1000" "now (sample_env_price 900000) (Suc 0) = 1001"
    "outbox (sample_bot_at 1000000 5) = []"
    by (simp_all add: sample_defs)
  from inst stored fetched differs percent reached ten show ?thesis
    by (auto simp: vals signed)
qed

text \<open>
  Claim C2 states the test on the percent delta as a number. With the threshold 5, a
  listing at 20000000000000001 and a fetched price of 21000000000000001, the delta is
  below 5, but the quotient rounded to a float and multiplied by 100 gives exactly 5.0:
  the pass stores the new price and sends a notification.
\<close>

theorem rounded_percent_reaches_threshold:
  "\<bar>of_int (21000000000000001 - 20000000000000001)\<bar> / of_int 20000000000000001 * 100 < (5::rat)
   \<and> lookup_car (sample_bot_at 20000000000000001 5) 1 sample_url =
       Some (sample_car_at 20000000000000001)
   \<and> price (sample_car_at 20000000000000001) = 20000000000000001
   \<and> threshold_of (sample_bot_at 20000000000000001 5) 1 = 5
   \<and> fetch_car_data (sample_env_price 21000000000000001) sample_url =
       Fetch_data (sample_car_data\<lparr>snap_price := 21000000000000001\<rparr>)
   \<and> price_change_percent 20000000000000001 21000000000000001 =
       Inr (Finite 5629499534213120 (- 50))
   \<and> float_value 5629499534213120 (- 50) = 5
   \<and> map_option price
        (lookup_car (monitor_prices (\<lambda>u url. sample_env_price 21000000000000001)
           (sample_bot_at 20000000000000001 5)) 1 sample_url) = Some 21000000000000001
   \<and> map_option (\<lambda>c. length (price_history c))
        (lookup_car (monitor_prices (\<lambda>u url. sample_env_price 21000000000000001)
           (sample_bot_at 20000000000000001 5)) 1 sample_url) = Some 2
   \<and> list_all (is_alert_for 1 sample_url)
        (outbox (monitor_prices (\<lambda>u url. sample_env_price 21000000000000001)
           (sample_bot_at 20000000000000001 5)))
   \<and> length (outbox (monitor_prices (\<lambda>u url. sample_env_price 21000000000000001)
           (sample_bot_at 20000000000000001 5))) = 1"
  by (simp add: sample_defs lookup_car_def cars_of_def threshold_of_def monitor_prices_def
      monitor_listing_def monitor_listing_body_def float_defs Let_def is_alert_for_def)

text \<open>
  Claim C2, amended. For a tracked listing, when the fetched price equals the current
  price, or differs from it with a percent delta that, as line 776 computes it in
  floating point, is strictly below the user's threshold, the polling pass leaves the
  current price and the history as they are, refreshes \<open>last_check\<close>, and puts no
  notification for this listing into the outbox.
\<close>

theorem poll_update_below_threshold:
  assumes "keys_distinct b"
    and "lookup_car b u url = Some c"
    and "fetch_car_data (es u url) url = Fetch_data nd"
    and "snap_price nd = price c \<or>
         (\<exists>percent. price_change_percent (price c) (snap_price nd) = Inr percent \<and>
            \<not> float_ge percent (threshold_of b u))"
  shows "\<exists>sent_in_pass.
       lookup_car (monitor_prices es b) u url = Some (c\<lparr>last_check := now (es u url) 0\<rparr>)
     \<and> outbox (monitor_prices es b) = outbox b @ sent_in_pass
     \<and> (\<forall>x \<in> set sent_in_pass. \<not> is_alert_for u url x)"
proof -
  have turn: "monitor_listing (es u url) (threshold_of b u) u url c =
      (c\<lparr>last_check := now (es u url) 0\<rparr>, [])"
    using assms(3,4) by (rule monitor_listing_unchanged)
  have stored: "lookup_car (monitor_prices es b) u url =
      Some (c\<lparr>last_check := now (es u url) 0\<rparr>)"
    by (simp add: monitor_prices_lookup_car assms(2) turn)
  have silent: "\<not> is_alert_for u url x" if "x \<in> set (snd (monitor_users es (user_data b)))" for x
  proof
    assume "is_alert_for u url x"
    from monitor_prices_alert_origin [OF assms(1) that this] assms(2)
    have "x \<in> set (snd (monitor_listing (es u url) (threshold_of b u) u url c))"
      by simp
    then show False by (simp add: turn)
  qed
  from stored silent show ?thesis
    by (intro exI [of _ "snd (monitor_users es (user_data b))"]) simp
qed

theorem poll_update_below_threshold_witness:
  "keys_distinct (sample_bot_at 1000000 5)
   \<and> lookup_car (sample_bot_at 1000000 5) 1 sample_url = Some (sample_car_at 1000000)
   \<and> fetch_car_data (sample_env_price 960000) sample_url =
       Fetch_data (sample_car_data\<lparr>snap_price := 960000\<rparr>)
   \<and> price_change_percent (price (sample_car_at 1000000)) 960000 =
       Inr (Finite 4503599627370496 (- 50))
   \<and> float_value 4503599627370496 (- 50) = 4
   \<and> \<not> float_ge (Finite 4503599627370496 (- 50)) (threshold_of (sample_bot_at 1000000 5) 1)
   \<and> (\<exists>sent_in_pass.
        lookup_car (monitor_prices (\<lambda>u url. sample_env_price 960000) (sample_bot_at 1000000 5))
          1 sample_url = Some ((sample_car_at 1000000)\<lparr>last_check := 1000\<rparr>)
      \<and> outbox (monitor_prices (\<lambda>u url. sample_env_price 960000) (sample_bot_at 1000000 5)) =
          sent_in_pass
      \<and> (\<forall>x \<in> set sent_in_pass. \<not> is_alert_for 1 sample_url x))"
proof -
  have distinct_keys: "keys_distinct (sample_bot_at 1000000 5)"
    by (simp add: keys_distinct_def cars_of_def sample_bot_at_def)
  have stored: "lookup_car (sample_bot_at 1000000 5) 1 sample_url = Some (sample_car_at 1000000)"
    by (simp add: sample_defs lookup_car_def cars_of_def)
  have fetched: "fetch_car_data (sample_env_price 960000) sample_url =
       Fetch_data (sample_car_data\<lparr>snap_price := 960000\<rparr>)"
    by (simp add: sample_defs)
  have percent: "price_change_percent (price (sample_car_at 1000000))
      (snap_price (sample_car_data\<lparr>snap_price := 960000\<rparr>)) =
       Inr (Finite 4503599627370496 (- 50))"
    by (simp add: sample_defs float_defs Let_def)
  have below: "\<not> float_ge (Finite 4503599627370496 (- 50))
      (threshold_of (sample_bot_at 1000000 5) 1)"
    by (simp add: sample_defs threshold_of_def float_value_def)
  have four: "float_value 4503599627370496 (- 50) = 4"
    by (simp add: float_value_def)
  have hyp: "snap_price (sample_car_data\<lparr>snap_price := 960000\<rparr>) = price (sample_car_at 1000000) \<or>
      (\<exists>percent. price_change_percent (price (sample_car_at 1000000))
           (snap_price (sample_car_data\<lparr>snap_price := 960000\<rparr>)) = Inr percent \<and>
         \<not> float_ge percent (threshold_of (sample_bot_at 1000000 5) 1))"
    using percent below by blast
  note inst = poll_update_below_threshold [where es = "\<lambda>u url. sample_env_price 960000",
      OF distinct_keys stored fetched hyp]
  have vals: "now (sample_env_price 960000) 0 = 1000" "outbox (sample_bot_at 1000000 5) = []"
    by (simp_all add: sample_defs)
  from inst distinct_keys stored fetched percent below four show ?thesis
    by (auto simp: vals sample_defs)
qed

subsection \<open>Errors during a pass\<close>

text \<open>
  Claim C9 says that a listing whose processing fails is skipped with its record
  unmutated. A listing stored with the price 0 whose fetched price is not 0 makes line 776
  divide by zero after line 773 has written \<open>last_check\<close>: the error is caught, and the
  record has changed.
\<close>

theorem zero_price_error_mutates_last_check:
  "fst (monitor_listing_body sample_env 5 1 sample_url
          (new_car sample_env (sample_car_data\<lparr>snap_price := 0\<rparr>))) = Some ZeroDivisionError
   \<and> fst (monitor_listing sample_env 5 1 sample_url
          (new_car sample_env (sample_car_data\<lparr>snap_price := 0\<rparr>)))
       \<noteq> new_car sample_env (sample_car_data\<lparr>snap_price := 0\<rparr>)"
  by (simp add: monitor_listing_def monitor_listing_body_def sample_defs float_defs Let_def)

text \<open>
  Claim C9, amended. No error of one turn of the loop ends the pass: every listing of
  every user is processed by its own turn, whatever happens in the other turns, and the
  keys of both dictionaries stay as they are. What the body of a turn raises is dropped.
  A listing whose fetch raises or returns nothing is left as it is and nothing is sent
  for it. When the body raises in any other way, nothing is sent and at most
  \<open>last_check\<close> of the listing has changed.
\<close>

theorem polling_pass_survives_errors:
  "lookup_car (monitor_prices es b) u url =
     map_option (\<lambda>c. fst (monitor_listing (es u url) (threshold_of b u) u url c))
       (lookup_car b u url)
   \<and> map fst (cars_of (monitor_prices es b) u) = map fst (cars_of b u)
   \<and> map fst (user_data (monitor_prices es b)) = map fst (user_data b)
   \<and> monitor_listing e threshold u url c = snd (monitor_listing_body e threshold u url c)
   \<and> (fetch_car_data e url = Fetch_raises \<or> fetch_car_data e url = Fetch_nothing \<longrightarrow>
        monitor_listing e threshold u url c = (c, []))
   \<and> (fst (monitor_listing_body e threshold u url c) \<noteq> None \<longrightarrow>
        snd (monitor_listing e threshold u url c) = [] \<and>
        (fst (monitor_listing e threshold u url c))\<lparr>last_check := last_check c\<rparr> = c)"
proof -
  have turn: "monitor_listing e threshold u url c = snd (monitor_listing_body e threshold u url c)"
    by (simp add: monitor_listing_def case_prod_beta)
  have err: "fst (monitor_listing_body e threshold u url c) \<noteq> None \<longrightarrow>
        snd (monitor_listing e threshold u url c) = [] \<and>
        (fst (monitor_listing e threshold u url c))\<lparr>last_check := last_check c\<rparr> = c"
  proof
    assume "fst (monitor_listing_body e threshold u url c) \<noteq> None"
    then obtain x c' out where "monitor_listing_body e threshold u url c = (Some x, c', out)"
      by (cases "monitor_listing_body e threshold u url c") auto
    with monitor_listing_body_error [OF this]
    show "snd (monitor_listing e threshold u url c) = [] \<and>
        (fst (monitor_listing e threshold u url c))\<lparr>last_check := last_check c\<rparr> = c"
      by (simp add: turn)
  qed
  show ?thesis
    using turn err monitor_listing_fetch_failure [of e url threshold u c]
    by (simp add: monitor_prices_lookup_car monitor_prices_cars_of monitor_cars_keys)
qed

theorem polling_pass_survives_errors_witness:
  "fetch_car_data (sample_pass_envs 1 sample_url2) sample_url2 = Fetch_raises
   \<and> lookup_car (monitor_prices sample_pass_envs sample_pass_bot) 1 sample_url2 = Some sample_car
   \<and> map_option price (lookup_car (monitor_prices sample_pass_envs sample_pass_bot) 1 sample_url)
       = Some 900000
   \<and> fst (monitor_listing_body sample_env 5 1 sample_url (sample_car\<lparr>price := 0\<rparr>)) \<noteq> None
   \<and> fst (monitor_listing sample_env 5 1 sample_url (sample_car\<lparr>price := 0\<rparr>)) =
       sample_car\<lparr>price := 0, last_check := 1000\<rparr>"
  using polling_pass_survives_errors [of sample_pass_envs sample_pass_bot 1 sample_url2
          "sample_pass_envs 1 sample_url2" 5 sample_car]
        polling_pass_survives_errors [of sample_pass_envs sample_pass_bot 1 sample_url
          sample_env 5 "sample_car\<lparr>price := 0\<rparr>"]
  by (simp add: sample_defs lookup_car_def cars_of_def threshold_of_def
      monitor_listing_def monitor_listing_body_def float_defs Let_def)

subsection \<open>Back and the start words\<close>

lemma handle_start_effect:
  "state_of (handle_start b u) = (state_of b)(u := STATE_MAIN_MENU)"
  "filters_of (handle_start b u) = filters_of b"
  "\<exists>w. outbox (handle_start b u) = outbox b @ [(u, Msg_welcome w, Main_menu_keyboard)]"
  by (simp_all add: handle_start_def case_prod_beta)

lemma start_word_length: "w \<in> set START_WORDS \<Longrightarrow> length w \<le> 6"
  by (auto simp: START_WORDS_def)

lemma main_menu_label_length:
  "8 \<le> length LBL_CHOOSE_CITY" "8 \<le> length LBL_ADD_URL" "8 \<le> length LBL_LIST_CARS"
  "8 \<le> length LBL_FILTERS" "8 \<le> length LBL_SETTINGS" "8 \<le> length LBL_HELP"
  by (simp_all add: label_defs)

lemma short_text_is_no_main_menu_label:
  assumes "length t \<le> 6"
  shows "t \<noteq> LBL_CHOOSE_CITY" "t \<noteq> LBL_ADD_URL" "t \<noteq> LBL_LIST_CARS" "t \<noteq> LBL_FILTERS"
    "t \<noteq> LBL_SETTINGS" "t \<noteq> LBL_HELP"
  using assms main_menu_label_length by auto

lemma sample_lower_length: "\<forall>s. length s \<le> length (str_lower sample_env s)"
  by (simp add: sample_env_def sample_lower_def)

text \<open>
  Claim C10. Whatever the dialog state, a message whose lower-cased text is one of the
  three start words goes through the main-menu branch; it is none of the six menu labels,
  so \<open>handle_start\<close> runs: the state becomes \<open>STATE_MAIN_MENU\<close> and the welcome text is
  sent with the main menu. The handler of the current state is not called. About
  \<^verbatim>\<open>str.lower\<close> the proof uses only that it never shortens a string.
\<close>

theorem start_words_reset_to_main_menu:
  assumes "\<forall>s. length s \<le> length (str_lower e s)"
    and "str_lower e (str_strip (event_text ev)) \<in> set START_WORDS"
  shows "handle_message e b ev = (None, handle_start b (event_user_id ev))
     \<and> str_strip (event_text ev) \<notin> set [LBL_CHOOSE_CITY, LBL_ADD_URL, LBL_LIST_CARS,
          LBL_FILTERS, LBL_SETTINGS, LBL_HELP]
     \<and> state_of (snd (handle_message e b ev)) =
          (state_of b)(event_user_id ev := STATE_MAIN_MENU)
     \<and> (\<exists>w. outbox (snd (handle_message e b ev)) =
              outbox b @ [(event_user_id ev, Msg_welcome w, Main_menu_keyboard)])
     \<and> cars_of (snd (handle_message e b ev)) = cars_of b
     \<and> filters_of (snd (handle_message e b ev)) = filters_of b"
proof -
  define msg where "msg = str_strip (event_text ev)"
  from assms(2) have "length (str_lower e msg) \<le> 6"
    unfolding msg_def by (rule start_word_length)
  with assms(1) have short: "length msg \<le> 6"
    using order_trans by blast
  note no_label = short_text_is_no_main_menu_label [OF short]
  have hm: "handle_message e b ev = (None, handle_start b (event_user_id ev))"
    using assms(2) no_label
    unfolding handle_message_branches msg_def [symmetric] by simp
  show ?thesis
    using no_label handle_start_effect [of b "event_user_id ev"]
    unfolding hm msg_def [symmetric] by simp
qed

theorem start_words_reset_to_main_menu_witness:
  "str_lower sample_env (str_strip (event_text (say [32, 83, 116, 97, 114, 116]))) \<in> set START_WORDS
   \<and> state_of (set_state empty_bot 1 STATE_PRICE_MAX) 1 = STATE_PRICE_MAX
   \<and> handle_message sample_env (set_state empty_bot 1 STATE_PRICE_MAX)
        (say [32, 83, 116, 97, 114, 116]) =
      (None, handle_start (set_state empty_bot 1 STATE_PRICE_MAX) 1)
   \<and> state_of (snd (handle_message sample_env (set_state empty_bot 1 STATE_PRICE_MAX)
        (say [32, 83, 116, 97, 114, 116]))) 1 = STATE_MAIN_MENU"
proof -
  have word: "str_lower sample_env (str_strip (event_text (say [32, 83, 116, 97, 114, 116])))
      \<in> set START_WORDS"
    by (simp add: sample_defs START_WORDS_def)
  have uid: "event_user_id (say [32, 83, 116, 97, 114, 116]) = 1"
    by (simp add: say_def)
  note inst = start_words_reset_to_main_menu [OF sample_lower_length word,
      of "set_state empty_bot 1 STATE_PRICE_MAX", unfolded uid]
  from word inst show ?thesis by (simp add: handle_start_effect)
qed

text \<open>
  Claim C8 says that Back discards a partially entered value, for example a minimum
  price entered while the maximum is awaited. \<open>handle_price_min\<close> writes the minimum into
  the stored filters at once, and \<open>handle_start\<close> does not touch the filters: after
  "Filters", "Price", "500000" and Back the minimum price 500000 is still stored.
\<close>

theorem back_keeps_entered_price_min:
  "state_of (dialog sample_env empty_bot
      [say LBL_FILTERS, say LBL_PRICE, say [53, 48, 48, 48, 48, 48]]) 1 = STATE_PRICE_MAX
   \<and> state_of (dialog sample_env empty_bot
      [say LBL_FILTERS, say LBL_PRICE, say [53, 48, 48, 48, 48, 48], say BACK_LABEL]) 1
       = STATE_MAIN_MENU
   \<and> price_min (filters_of (dialog sample_env empty_bot
      [say LBL_FILTERS, say LBL_PRICE, say [53, 48, 48, 48, 48, 48], say BACK_LABEL]) 1)
       = Some 500000"
  by (simp add: handle_message_def handler_defs access_defs sample_defs label_defs Let_def
      state_of_def filters_of_def)

text \<open>
  Claim C8, amended. In every dialog state the Back label leads to \<open>handle_start\<close>: the
  state of the user becomes \<open>STATE_MAIN_MENU\<close> and the main menu is sent again. The
  stored filters and the tracked listings are left as they are.
\<close>

theorem back_returns_to_main_menu:
  assumes "str_strip (event_text ev) = BACK_LABEL"
  shows "handle_message e b ev = (None, handle_start b (event_user_id ev))
     \<and> state_of (snd (handle_message e b ev)) =
          (state_of b)(event_user_id ev := STATE_MAIN_MENU)
     \<and> (\<exists>w. outbox (snd (handle_message e b ev)) =
              outbox b @ [(event_user_id ev, Msg_welcome w, Main_menu_keyboard)])
     \<and> cars_of (snd (handle_message e b ev)) = cars_of b
     \<and> filters_of (snd (handle_message e b ev)) = filters_of b"
proof -
  have hm: "handle_message e b ev = (None, handle_start b (event_user_id ev))"
    using assms unfolding handle_message_branches by simp
  show ?thesis
    using handle_start_effect [of b "event_user_id ev"] unfolding hm by simp
qed

theorem back_returns_to_main_menu_witness:
  "str_strip (event_text (say (32 # BACK_LABEL))) = BACK_LABEL
   \<and> state_of (set_state empty_bot 1 STATE_YEAR_MAX) 1 = STATE_YEAR_MAX
   \<and> state_of (snd (handle_message sample_env (set_state empty_bot 1 STATE_YEAR_MAX)
        (say (32 # BACK_LABEL)))) 1 = STATE_MAIN_MENU
   \<and> filters_of (snd (handle_message sample_env (set_state empty_bot 1 STATE_YEAR_MAX)
        (say (32 # BACK_LABEL)))) = filters_of (set_state empty_bot 1 STATE_YEAR_MAX)"
proof -
  have is_back: "str_strip (event_text (say (32 # BACK_LABEL))) = BACK_LABEL"
    by (simp add: say_def str_strip_def isspace_def BACK_LABEL_def)
  have uid: "event_user_id (say (32 # BACK_LABEL)) = 1"
    by (simp add: say_def)
  note inst = back_returns_to_main_menu [OF is_back, of sample_env
      "set_state empty_bot 1 STATE_YEAR_MAX", unfolded uid]
  from is_back inst show ?thesis by (simp add: handle_start_effect)
qed

subsection \<open>Entering a year\<close>

text \<open>
  Claim C7. In the states \<open>STATE_YEAR_MIN\<close> and \<open>STATE_YEAR_MAX\<close>, for a text that
  \<^verbatim>\<open>int\<close> reads as \<open>y\<close>: a \<open>y\<close> other than 0 outside 1900 .. current year changes
  neither the state nor the stored data, and the error message with the valid range is
  sent; 0 clears the bound and any other valid \<open>y\<close> is stored, and the state moves from
  \<open>STATE_YEAR_MIN\<close> to \<open>STATE_YEAR_MAX\<close> and from there to the filter menu. The text is
  neither the Back label nor a start word (no such text is an integer for Python; with
  \<^verbatim>\<open>int\<close> and \<^verbatim>\<open>str.lower\<close> as parameters this is assumed).
\<close>

theorem year_input:
  assumes "str_to_int e (str_strip (event_text ev)) = Some y"
    and "str_strip (event_text ev) \<noteq> BACK_LABEL"
    and "str_lower e (str_strip (event_text ev)) \<notin> set START_WORDS"
    and "u = event_user_id ev"
    and "b' = snd (handle_message e b ev)"
  shows
    "(state_of b u = STATE_YEAR_MIN \<and> y \<noteq> 0 \<and> (y < 1900 \<or> current_year e < y) \<longrightarrow>
        handle_message e b ev =
          (None, send_message b u (Msg_bad_year (current_year e)) No_keyboard)
        \<and> state_of b' = state_of b \<and> user_data b' = user_data b)
   \<and> (state_of b u = STATE_YEAR_MAX \<and> y \<noteq> 0 \<and> (y < 1900 \<or> current_year e < y) \<longrightarrow>
        handle_message e b ev =
          (None, send_message b u (Msg_bad_year (current_year e)) No_keyboard)
        \<and> state_of b' = state_of b \<and> user_data b' = user_data b)
   \<and> (state_of b u = STATE_YEAR_MIN \<and> (y = 0 \<or> 1900 \<le> y \<and> y \<le> current_year e) \<longrightarrow>
        fst (handle_message e b ev) = None
        \<and> state_of b' = (state_of b)(u := STATE_YEAR_MAX)
        \<and> filters_of b' = (filters_of b)
             (u := (filters_of b u)\<lparr>year_min := if y = 0 then None else Some y\<rparr>)
        \<and> outbox b' = outbox b @ [(u, Msg_ask_year_max, Back_keyboard)])
   \<and> (state_of b u = STATE_YEAR_MAX \<and> (y = 0 \<or> 1900 \<le> y \<and> y \<le> current_year e) \<longrightarrow>
        fst (handle_message e b ev) = None
        \<and> state_of b' = (state_of b)(u := STATE_SETTING_FILTERS)
        \<and> filters_of b' = (filters_of b)
             (u := (filters_of b u)\<lparr>year_max := if y = 0 then None else Some y\<rparr>)
        \<and> outbox b' = outbox b @
             [(u, Msg_year_set ((filters_of b u)\<lparr>year_max := if y = 0 then None else Some y\<rparr>),
               Filters_keyboard)])"
proof -
  have ymin: "state_of b u = STATE_YEAR_MIN \<Longrightarrow>
      handle_message e b ev = (None, handle_year_min e b u (str_strip (event_text ev)))"
    using assms(2-4) unfolding handle_message_branches by simp
  have ymax: "state_of b u = STATE_YEAR_MAX \<Longrightarrow>
      handle_message e b ev = (None, handle_year_max e b u (str_strip (event_text ev)))"
    using assms(2-4) unfolding handle_message_branches by simp
  have bad_min: "y \<noteq> 0 \<and> (y < 1900 \<or> current_year e < y) \<Longrightarrow>
      handle_year_min e b u (str_strip (event_text ev)) =
        send_message b u (Msg_bad_year (current_year e)) No_keyboard"
    using assms(1) by (auto simp: handle_year_min_def)
  have bad_max: "y \<noteq> 0 \<and> (y < 1900 \<or> current_year e < y) \<Longrightarrow>
      handle_year_max e b u (str_strip (event_text ev)) =
        send_message b u (Msg_bad_year (current_year e)) No_keyboard"
    using assms(1) by (auto simp: handle_year_max_def)
  have ok_min: "y = 0 \<or> 1900 \<le> y \<and> y \<le> current_year e \<Longrightarrow>
      state_of (handle_year_min e b u (str_strip (event_text ev))) =
        (state_of b)(u := STATE_YEAR_MAX)
      \<and> filters_of (handle_year_min e b u (str_strip (event_text ev))) =
        (filters_of b)(u := (filters_of b u)\<lparr>year_min := if y = 0 then None else Some y\<rparr>)
      \<and> outbox (handle_year_min e b u (str_strip (event_text ev))) =
        outbox b @ [(u, Msg_ask_year_max, Back_keyboard)]"
    using assms(1) by (auto simp: handle_year_min_def case_prod_beta)
  have ok_max: "y = 0 \<or> 1900 \<le> y \<and> y \<le> current_year e \<Longrightarrow>
      state_of (handle_year_max e b u (str_strip (event_text ev))) =
        (state_of b)(u := STATE_SETTING_FILTERS)
      \<and> filters_of (handle_year_max e b u (str_strip (event_text ev))) =
        (filters_of b)(u := (filters_of b u)\<lparr>year_max := if y = 0 then None else Some y\<rparr>)
      \<and> outbox (handle_year_max e b u (str_strip (event_text ev))) =
        outbox b @
          [(u, Msg_year_set ((filters_of b u)\<lparr>year_max := if y = 0 then None else Some y\<rparr>),
            Filters_keyboard)]"
    using assms(1) by (auto simp: handle_year_max_def case_prod_beta Let_def)
  show ?thesis
    unfolding assms(5)
    using ymin ymax bad_min bad_max ok_min ok_max by simp
qed

theorem year_input_witness:
  "str_to_int sample_env (str_strip (event_text (say [49, 56, 48, 48]))) = Some 1800
   \<and> str_to_int sample_env (str_strip (event_text (say [48]))) = Some 0
   \<and> str_to_int sample_env (str_strip (event_text (say [50, 48, 49, 53]))) = Some 2015
   \<and> state_of (set_state empty_bot 1 STATE_YEAR_MIN) 1 = STATE_YEAR_MIN
   \<and> state_of (set_state empty_bot 1 STATE_YEAR_MAX) 1 = STATE_YEAR_MAX
   \<and> handle_message sample_env (set_state empty_bot 1 STATE_YEAR_MIN) (say [49, 56, 48, 48]) =
       (None, send_message (set_state empty_bot 1 STATE_YEAR_MIN) 1 (Msg_bad_year 2025)
                No_keyboard)
   \<and> handle_message sample_env (set_state empty_bot 1 STATE_YEAR_MAX) (say [49, 56, 48, 48]) =
       (None, send_message (set_state empty_bot 1 STATE_YEAR_MAX) 1 (Msg_bad_year 2025)
                No_keyboard)
   \<and> state_of (snd (handle_message sample_env (set_state empty_bot 1 STATE_YEAR_MIN)
        (say [48]))) 1 = STATE_YEAR_MAX
   \<and> year_min (filters_of (snd (handle_message sample_env
        (set_state (put_user empty_bot 1 (default_user\<lparr>filters := no_filters\<lparr>year_min := Some 2000\<rparr>\<rparr>))
           1 STATE_YEAR_MIN)
        (say [48]))) 1) = None
   \<and> state_of (snd (handle_message sample_env (set_state empty_bot 1 STATE_YEAR_MAX)
        (say [50, 48, 49, 53]))) 1 = STATE_SETTING_FILTERS
   \<and> year_max (filters_of (snd (handle_message sample_env (set_state empty_bot 1 STATE_YEAR_MAX)
        (say [50, 48, 49, 53]))) 1) = Some 2015"
proof -
  have p1: "str_to_int sample_env (str_strip (event_text (say [49, 56, 48, 48]))) = Some 1800"
    and p0: "str_to_int sample_env (str_strip (event_text (say [48]))) = Some 0"
    and p2: "str_to_int sample_env (str_strip (event_text (say [50, 48, 49, 53]))) = Some 2015"
    by (simp_all add: sample_defs)
  have nb: "str_strip (event_text (say [49, 56, 48, 48])) \<noteq> BACK_LABEL"
    "str_strip (event_text (say [48])) \<noteq> BACK_LABEL"
    "str_strip (event_text (say [50, 48, 49, 53])) \<noteq> BACK_LABEL"
    by (simp_all add: sample_defs BACK_LABEL_def)
  have ns: "str_lower sample_env (str_strip (event_text (say [49, 56, 48, 48]))) \<notin> set START_WORDS"
    "str_lower sample_env (str_strip (event_text (say [48]))) \<notin> set START_WORDS"
    "str_lower sample_env (str_strip (event_text (say [50, 48, 49, 53]))) \<notin> set START_WORDS"
    by (simp_all add: sample_defs START_WORDS_def)
  have uid: "1 = event_user_id (say t)" for t
    by (simp add: say_def)
  note i1 = year_input [OF p1 nb(1) ns(1) uid refl, of "set_state empty_bot 1 STATE_YEAR_MIN"]
  note i2 = year_input [OF p0 nb(2) ns(2) uid refl, of "set_state empty_bot 1 STATE_YEAR_MIN"]
  note i3 = year_input [OF p0 nb(2) ns(2) uid refl,
      of "set_state (put_user empty_bot 1 (default_user\<lparr>filters := no_filters\<lparr>year_min := Some 2000\<rparr>\<rparr>))
           1 STATE_YEAR_MIN"]
  note i4 = year_input [OF p1 nb(1) ns(1) uid refl, of "set_state empty_bot 1 STATE_YEAR_MAX"]
  note i5 = year_input [OF p2 nb(3) ns(3) uid refl, of "set_state empty_bot 1 STATE_YEAR_MAX"]
  have cy: "current_year sample_env = 2025" by (simp add: sample_env_def)
  from p1 p0 p2 i1 i2 i3 i4 i5 show ?thesis by (simp add: cy)
qed

subsection \<open>Invariants of the reachable states\<close>

lemma str_contains_length: "str_contains sub s \<Longrightarrow> length sub \<le> length s"
  by (induction s) (auto dest: prefix_length_le)

lemma has_site_marker_length: "has_site_marker url \<Longrightarrow> 7 \<le> length url"
  by (auto simp: has_site_marker_def AUTO_RU_def DROM_RU_def dest!: str_contains_length)

lemma back_label_no_marker: "\<not> has_site_marker BACK_LABEL"
  by (simp add: has_site_marker_def label_defs)

lemma restart_simps [simp]:
  "cars_of (restart b) = cars_of b"
  "lookup_car (restart b) = lookup_car b"
  "filters_of (restart b) = filters_of b"
  "threshold_of (restart b) = threshold_of b"
  "state_of (restart b) u = STATE_MAIN_MENU"
  by (auto simp: restart_def cars_of_def lookup_car_def filters_of_def threshold_of_def
      state_of_def fun_eq_iff)

lemma car_ok_new_car [simp]: "car_ok (new_car e cd)"
  by (simp add: car_ok_def new_car_def)

lemma reachable_tracked:
  "reachable b \<Longrightarrow> lookup_car b u url = Some c \<Longrightarrow> has_site_marker url \<and> car_ok c"
proof (induction arbitrary: u url c rule: reachable.induct)
  case reachable_empty
  then show ?case by (simp add: lookup_car_def cars_of_def empty_bot_def)
next
  case (reachable_message b e ev)
  from handle_message_lookup_car [of e b ev u url]
  consider (same) "lookup_car (snd (handle_message e b ev)) u url = lookup_car b u url"
    | (added) cd where "has_site_marker url"
        "lookup_car (snd (handle_message e b ev)) u url = Some (new_car e cd)"
    by blast
  then show ?case
  proof cases
    case same
    with reachable_message.prems have "lookup_car b u url = Some c" by simp
    then show ?thesis by (rule reachable_message.IH)
  next
    case added
    with reachable_message.prems have "c = new_car e cd" by simp
    with added(1) show ?thesis by simp
  qed
next
  case (reachable_monitor b es)
  from reachable_monitor.prems obtain c0 where
    c0: "lookup_car b u url = Some c0"
    and c: "c = fst (monitor_listing (es u url) (threshold_of b u) u url c0)"
    by (auto simp: monitor_prices_lookup_car)
  from reachable_monitor.IH [OF c0] show ?case
    unfolding c by (simp add: monitor_listing_car_ok)
next
  case (reachable_restart b)
  then show ?case by simp
qed

lemma reachable_dialog: "reachable b \<Longrightarrow> reachable (dialog e b evs)"
  unfolding dialog_def
  by (induction evs arbitrary: b) (auto intro: reachable_message)

lemmas eval_defs = handle_message_def handler_defs send_car_list_def list_entry_error_def
  access_defs sample_defs label_defs Let_def
  state_of_def filters_of_def lookup_car_def cars_of_def check_filters_def

lemma sample_tracking_bot_obs:
  "lookup_car sample_tracking_bot 1 sample_url = Some sample_car"
  "state_of sample_tracking_bot 1 = STATE_MAIN_MENU"
  by (simp_all add: eval_defs)

lemma sample_adding_bot_obs:
  "lookup_car sample_adding_bot 1 sample_url = Some sample_car"
  "state_of sample_adding_bot 1 = STATE_ADDING_URL"
  by (simp_all add: eval_defs)

lemma sample_ready_bot_obs:
  "lookup_car sample_ready_bot 1 sample_url = None"
  "lookup_car (snd (handle_message sample_env sample_ready_bot (say sample_url))) 1 sample_url =
     Some sample_car"
  by (simp_all add: eval_defs)

lemma reachable_samples:
  "reachable sample_tracking_bot" "reachable sample_adding_bot" "reachable sample_filtering_bot"
  "reachable sample_ready_bot"
  unfolding sample_tracking_bot_def sample_adding_bot_def sample_filtering_bot_def
    sample_ready_bot_def
  by (intro reachable_dialog reachable_empty)+

subsection \<open>Adding a listing\<close>

lemma handle_url_received_duplicate:
  assumes "has_site_marker url" and "lookup_car b u url = Some c"
  shows "handle_url_received e b u url =
     (None, send_message (set_state b u STATE_MAIN_MENU) u Msg_duplicate Main_menu_keyboard)"
  using assms
  by (auto simp: handle_url_received_def has_site_marker_def lookup_car_def cars_of_def
      split: option.splits)

text \<open>
  Claim C6. In every state the bot can reach, when a user in \<open>STATE_ADDING_URL\<close> sends a
  URL that is already in the user's tracked listings, the add-flow ends with the
  duplicate message and the main menu, the state becomes \<open>STATE_MAIN_MENU\<close>, and the
  user records, the tracked listings among them, are unchanged. About \<^verbatim>\<open>str.lower\<close> the
  proof uses only that it never shortens a string.
\<close>

theorem duplicate_url_is_rejected:
  assumes "reachable b"
    and "\<forall>s. length s \<le> length (str_lower e s)"
    and "state_of b u = STATE_ADDING_URL"
    and "u = event_user_id ev"
    and "lookup_car b u (str_strip (event_text ev)) = Some c"
  shows "handle_message e b ev =
       (None, send_message (set_state b u STATE_MAIN_MENU) u Msg_duplicate Main_menu_keyboard)
     \<and> user_data (snd (handle_message e b ev)) = user_data b
     \<and> length (cars_of (snd (handle_message e b ev)) u) = length (cars_of b u)
     \<and> state_of (snd (handle_message e b ev)) u = STATE_MAIN_MENU
     \<and> outbox (snd (handle_message e b ev)) = outbox b @ [(u, Msg_duplicate, Main_menu_keyboard)]"
proof -
  define url where "url = str_strip (event_text ev)"
  from reachable_tracked [OF assms(1) assms(5)] have marker: "has_site_marker url"
    by (simp add: url_def)
  then have "7 \<le> length url" by (rule has_site_marker_length)
  with assms(2) have "7 \<le> length (str_lower e url)"
    using order_trans by blast
  then have no_word: "str_lower e url \<notin> set START_WORDS"
    using start_word_length [of "str_lower e url"] by auto
  from marker back_label_no_marker have no_back: "url \<noteq> BACK_LABEL" by auto
  have "handle_message e b ev = handle_url_received e b u url"
    using no_word no_back assms(3,4)
    unfolding handle_message_branches url_def [symmetric] by simp
  also have "\<dots> = (None, send_message (set_state b u STATE_MAIN_MENU) u Msg_duplicate
      Main_menu_keyboard)"
    using marker assms(5) unfolding url_def [symmetric] by (rule handle_url_received_duplicate)
  finally show ?thesis by simp
qed

theorem duplicate_url_is_rejected_witness:
  "reachable sample_adding_bot
   \<and> state_of sample_adding_bot 1 = STATE_ADDING_URL
   \<and> lookup_car sample_adding_bot 1 (str_strip (event_text (say sample_url))) = Some sample_car
   \<and> handle_message sample_env sample_adding_bot (say sample_url) =
       (None, send_message (set_state sample_adding_bot 1 STATE_MAIN_MENU) 1 Msg_duplicate
                Main_menu_keyboard)
   \<and> user_data (snd (handle_message sample_env sample_adding_bot (say sample_url))) =
       user_data sample_adding_bot"
proof -
  have uid: "1 = event_user_id (say sample_url)"
    by (simp add: say_def)
  have stripped: "str_strip (event_text (say sample_url)) = sample_url"
    by (simp add: say_def sample_url_def str_strip_def isspace_def)
  have tracked: "lookup_car sample_adding_bot 1 (str_strip (event_text (say sample_url))) =
      Some sample_car"
    unfolding stripped by (rule sample_adding_bot_obs)
  note inst = duplicate_url_is_rejected [OF reachable_samples(2) sample_lower_length
      sample_adding_bot_obs(2) uid tracked]
  from reachable_samples(2) sample_adding_bot_obs(2) tracked inst show ?thesis by simp
qed

subsection \<open>The price history\<close>

lemma handle_message_keeps_listing:
  assumes "lookup_car b u url = Some c"
  shows "lookup_car (snd (handle_message e b ev)) u url = Some c"
  using handle_message_lookup_car [of e b ev u url] assms by auto

lemma handle_message_new_listing:
  assumes "lookup_car b u url = None"
    and "lookup_car (snd (handle_message e b ev)) u url = Some c'"
  shows "\<exists>cd. fetch_car_data e url = Fetch_data cd \<and> c' = new_car e cd"
  using handle_message_lookup_car [of e b ev u url] assms by auto

text \<open>
  Claim C3. In every state the bot can reach, the history of every tracked listing is
  not empty and the price of its last entry is the current price. A listing that a
  message creates starts with exactly one entry, whose price is the price fetched at
  creation. A message leaves every existing listing as it is; a polling pass keeps every
  listing, only extends its history at the end, and leaves the last entry's price equal
  to the current price; it creates no listing. A restart changes no listing.
\<close>

theorem price_history_invariant:
  assumes "reachable b"
  shows
    "(lookup_car b u url = Some c \<longrightarrow>
        price_history c \<noteq> [] \<and> entry_price (last (price_history c)) = price c)
   \<and> (lookup_car b u url = None \<and> lookup_car (snd (handle_message e b ev)) u url = Some c' \<longrightarrow>
        (\<exists>cd. fetch_car_data e url = Fetch_data cd \<and> price c' = snap_price cd \<and>
              price_history c' = [\<lparr>entry_price = snap_price cd, entry_date = now e 2\<rparr>]))
   \<and> (lookup_car b u url = Some c \<longrightarrow>
        lookup_car (snd (handle_message e b ev)) u url = Some c)
   \<and> (lookup_car b u url = Some c \<longrightarrow>
        (\<exists>c''. lookup_car (monitor_prices es b) u url = Some c'' \<and>
               prefix (price_history c) (price_history c'') \<and>
               entry_price (last (price_history c'')) = price c''))
   \<and> (lookup_car b u url = None \<longrightarrow> lookup_car (monitor_prices es b) u url = None)
   \<and> lookup_car (restart b) u url = lookup_car b u url"
proof -
  have inv: "lookup_car b u url = Some c \<longrightarrow>
        price_history c \<noteq> [] \<and> entry_price (last (price_history c)) = price c"
    using reachable_tracked [OF assms, of u url c] by (simp add: car_ok_def)
  have created: "lookup_car b u url = None \<and>
        lookup_car (snd (handle_message e b ev)) u url = Some c' \<longrightarrow>
        (\<exists>cd. fetch_car_data e url = Fetch_data cd \<and> price c' = snap_price cd \<and>
              price_history c' = [\<lparr>entry_price = snap_price cd, entry_date = now e 2\<rparr>])"
  proof
    assume "lookup_car b u url = None \<and>
        lookup_car (snd (handle_message e b ev)) u url = Some c'"
    then obtain cd where "fetch_car_data e url = Fetch_data cd" "c' = new_car e cd"
      using handle_message_new_listing by blast
    then show "\<exists>cd. fetch_car_data e url = Fetch_data cd \<and> price c' = snap_price cd \<and>
              price_history c' = [\<lparr>entry_price = snap_price cd, entry_date = now e 2\<rparr>]"
      by (auto simp: new_car_def)
  qed
  have kept: "lookup_car b u url = Some c \<longrightarrow>
        lookup_car (snd (handle_message e b ev)) u url = Some c"
    by (simp add: handle_message_keeps_listing)
  have polled: "lookup_car b u url = Some c \<longrightarrow>
        (\<exists>c''. lookup_car (monitor_prices es b) u url = Some c'' \<and>
               prefix (price_history c) (price_history c'') \<and>
               entry_price (last (price_history c'')) = price c'')"
  proof
    assume c: "lookup_car b u url = Some c"
    from reachable_tracked [OF assms c] have "car_ok c" by simp
    then have "car_ok (fst (monitor_listing (es u url) (threshold_of b u) u url c))"
      by (rule monitor_listing_car_ok)
    with c monitor_listing_history [of c "es u url" "threshold_of b u" u url]
    show "\<exists>c''. lookup_car (monitor_prices es b) u url = Some c'' \<and>
               prefix (price_history c) (price_history c'') \<and>
               entry_price (last (price_history c'')) = price c''"
      by (simp add: monitor_prices_lookup_car car_ok_def)
  qed
  have none: "lookup_car b u url = None \<longrightarrow> lookup_car (monitor_prices es b) u url = None"
    by (simp add: monitor_prices_lookup_car)
  from inv created kept polled none show ?thesis by simp
qed

theorem price_history_invariant_witness:
  "reachable sample_tracking_bot
   \<and> lookup_car sample_tracking_bot 1 sample_url = Some sample_car
   \<and> price_history sample_car = [\<lparr>entry_price = 1000000, entry_date = 1002\<rparr>]
   \<and> entry_price (last (price_history sample_car)) = price sample_car
   \<and> lookup_car (snd (handle_message sample_env sample_tracking_bot (say LBL_ADD_URL)))
        1 sample_url = Some sample_car
   \<and> (\<exists>c''. lookup_car (monitor_prices sample_pass_envs sample_tracking_bot) 1 sample_url =
          Some c'' \<and>
        prefix (price_history sample_car) (price_history c'') \<and>
        entry_price (last (price_history c'')) = price c'')
   \<and> reachable sample_ready_bot
   \<and> lookup_car sample_ready_bot 1 sample_url = None
   \<and> lookup_car (snd (handle_message sample_env sample_ready_bot (say sample_url))) 1 sample_url =
       Some sample_car
   \<and> (\<exists>cd. fetch_car_data sample_env sample_url = Fetch_data cd \<and>
          price sample_car = snap_price cd \<and>
          price_history sample_car = [\<lparr>entry_price = snap_price cd, entry_date = 1002\<rparr>])
   \<and> lookup_car (monitor_prices sample_pass_envs sample_ready_bot) 1 sample_url = None"
proof -
  note i1 = price_history_invariant [OF reachable_samples(1), of 1 sample_url sample_car
      sample_env "say LBL_ADD_URL" sample_car sample_pass_envs]
  note i2 = price_history_invariant [OF reachable_samples(4), of 1 sample_url sample_car
      sample_env "say sample_url" sample_car sample_pass_envs]
  have hist: "price_history sample_car = [\<lparr>entry_price = 1000000, entry_date = 1002\<rparr>]"
    by (simp add: sample_defs)
  have clock: "now sample_env 2 = 1002"
    by (simp add: sample_env_def)
  from i1 i2 hist reachable_samples(1,4) sample_tracking_bot_obs(1) sample_ready_bot_obs
  show ?thesis
    by (simp add: clock)
qed

subsection \<open>A listing that fails the filters\<close>

text \<open>
  A submission that fails the filters changes neither the user records nor the dialog
  states: it only sends the loading message and the warning.
\<close>

lemma filter_mismatch_changes_nothing:
  assumes "\<forall>s. length s \<le> length (str_lower e s)"
    and "state_of b u = STATE_ADDING_URL"
    and "u = event_user_id ev"
    and "url = str_strip (event_text ev)"
    and "has_site_marker url"
    and "map_of (user_data b) u = Some ud"
    and "map_of (monitored_cars ud) url = None"
    and "fetch_car_data e url = Fetch_data cd"
    and "\<not> check_filters cd (filters ud)"
  shows "handle_message e b ev =
     (None, send_message (send_message b u Msg_loading No_keyboard) u
        (Msg_filter_mismatch (snap_title cd) (snap_price cd)
           (if truthy_int (snap_year cd) then snap_year cd else None))
        No_keyboard)"
proof -
  from assms(5) have "7 \<le> length url" by (rule has_site_marker_length)
  with assms(1) have "7 \<le> length (str_lower e url)"
    using order_trans by blast
  then have no_word: "str_lower e url \<notin> set START_WORDS"
    using start_word_length [of "str_lower e url"] by auto
  from assms(5) back_label_no_marker have no_back: "url \<noteq> BACK_LABEL" by auto
  have "handle_message e b ev = handle_url_received e b u url"
    using no_word no_back assms(2,3)
    unfolding handle_message_branches assms(4) [symmetric] by simp
  also have "\<dots> = (None, send_message (send_message b u Msg_loading No_keyboard) u
        (Msg_filter_mismatch (snap_title cd) (snap_price cd)
           (if truthy_int (snap_year cd) then snap_year cd else None))
        No_keyboard)"
    using assms(5-9)
    by (simp add: handle_url_received_def has_site_marker_def get_user_data_def
        send_message_def Let_def)
  finally show ?thesis .
qed

text \<open>
  Claim C4: after the warning, sending the same URL again adds the listing. The warning
  of line 379 asks the user to do so and the comment of line 381 says the addition is
  allowed for the moment, but \<open>handle_url_received\<close> records nothing about the first
  attempt: the second one runs the filter check again. With a maximum price of 500000
  and a listing offered at 1000000, the listing is not tracked after the first
  submission, nor after the second.
\<close>

theorem resubmitted_url_is_checked_again:
  "state_of sample_filtering_bot 1 = STATE_ADDING_URL
   \<and> price_max (filters_of sample_filtering_bot 1) = Some 500000
   \<and> fetch_car_data sample_env sample_url = Fetch_data sample_car_data
   \<and> \<not> check_filters sample_car_data (filters_of sample_filtering_bot 1)
   \<and> state_of (dialog sample_env sample_filtering_bot [say sample_url]) 1 = STATE_ADDING_URL
   \<and> lookup_car (dialog sample_env sample_filtering_bot [say sample_url]) 1 sample_url = None
   \<and> last (outbox (dialog sample_env sample_filtering_bot [say sample_url])) =
       (1, Msg_filter_mismatch (snap_title sample_car_data) 1000000 (Some 2015), No_keyboard)
   \<and> state_of (dialog sample_env sample_filtering_bot [say sample_url, say sample_url]) 1 =
       STATE_ADDING_URL
   \<and> lookup_car (dialog sample_env sample_filtering_bot [say sample_url, say sample_url])
        1 sample_url = None
   \<and> last (outbox (dialog sample_env sample_filtering_bot [say sample_url, say sample_url])) =
       (1, Msg_filter_mismatch (snap_title sample_car_data) 1000000 (Some 2015), No_keyboard)"
  by (simp add: eval_defs)

end
